theory Spec2Isabelle
  imports Complex_Main "HOL-Library.Char_ord" "HOL-Library.List_Lexorder"
    "HOL-Library.Multiset"
begin

section \<open>Data model (types.py)\<close>

text \<open>
  \<^verbatim>\<open>FlagValue = Union[bool, str, int, float, Dict[str, Any], List[Any], None]\<close>.
  A Python dictionary keeps its insertion order and has unique keys; it is an association
  list here, so that the order in which a caller built it is part of the value.
  \<open>VNone\<close> is Python's \<open>None\<close>. Floating point flag values are left out: their textual
  form is the shortest round-trip representation, which has no counterpart here.
\<close>

datatype FlagValue =
    VNone
  | VBool bool
  | VInt int
  | VStr string
  | VList "FlagValue list"
  | VDict "(string \<times> FlagValue) list"

datatype EvaluationReason = TARGETING_MATCH | DEFAULT | DISABLED | CACHED | OFFLINE | ERROR

record EvaluationContext =
  user_id :: "string option"
  attributes :: "(string \<times> FlagValue) list"
  device :: "(string \<times> FlagValue) list option"
  session :: "(string \<times> FlagValue) list option"

record ConnectionConfig =
  mode :: string
  retry_attempts :: int
  retry_delay :: int
  exponential_backoff :: bool

record OfflineConfig =
  enabled :: bool
  default_flags :: "string \<rightharpoonup> FlagValue"

text \<open>An event handler is optional; the record says which ones the host has set.\<close>

record EventHandlers =
  on_evaluation :: bool
  on_error :: bool
  on_cache_hit :: bool
  on_cache_miss :: bool

record FlexFlagConfig =
  environment :: string
  connection :: ConnectionConfig
  offline :: OfflineConfig
  events :: EventHandlers

record EvaluationMetadata =
  timestamp :: real
  cache_hit :: bool
  evaluation_time_ms :: real
  source :: string
  request_id :: FlagValue

record EvaluationResult =
  result_value :: FlagValue
  variation :: FlagValue
  reason :: EvaluationReason
  metadata :: "EvaluationMetadata option"

record SDKMetrics =
  evaluations :: int
  cache_hits :: int
  cache_misses :: int
  errors :: int
  network_requests :: int
  average_latency_ms :: real

definition SDKMetrics_init :: SDKMetrics where
  "SDKMetrics_init =
     \<lparr>evaluations = 0, cache_hits = 0, cache_misses = 0, errors = 0,
      network_requests = 0, average_latency_ms = 0\<rparr>"

section \<open>Exceptions and the cache provider interface\<close>

text \<open>
  Every \<open>raise\<close> of the source is a value of \<open>error\<close>; a call that may raise returns
  \<open>error + 'a\<close>, with \<open>Inl\<close> for the exception.
\<close>

datatype error =
    API_returned_status int
  | Batch_API_returned_status int
  | All_retry_attempts_exhausted
  | Transport_error
  | Json_decode_error
  | Attribute_error
  | Cache_error

text \<open>
  \<open>CacheProvider\<close> is the abstract interface of types.py: \<open>get\<close> returns the stored
  value or \<open>None\<close>, \<open>set\<close> stores a value, and each may raise. A provider is a pair of
  functions over its own state \<open>'s\<close>, with no assumption about what they do.
\<close>

record 's CacheProvider =
  cache_get :: "string \<Rightarrow> 's \<Rightarrow> (error + FlagValue) \<times> 's"
  cache_set :: "string \<Rightarrow> FlagValue \<Rightarrow> 's \<Rightarrow> (error + unit) \<times> 's"

section \<open>The client (client.py)\<close>

text \<open>
  What the client reads from outside: the clock (the \<open>n\<close>-th reading of
  \<open>time.time()\<close> or \<open>datetime.now()\<close>) and the remote service (the outcome of the
  \<open>n\<close>-th HTTP request the client sends).
\<close>

datatype http_outcome =
    Response int "FlagValue option"
  | No_response

record world =
  clock :: "nat \<Rightarrow> real"
  network :: "nat \<Rightarrow> http_outcome"

datatype event =
    Cache_hit string
  | Cache_miss string
  | Evaluation string FlagValue
  | Error_event error

text \<open>
  The client object: configuration, the default evaluation context, the cache provider
  with its state, the metrics and the offline flag; and what it has done to the outside:
  how many clock readings it made, the HTTP requests it sent (path and JSON payload),
  which handlers it called, how long it slept. Logging is left out. Handlers are the
  host's code and are taken to return normally.
\<close>

record 's client =
  config :: FlexFlagConfig
  client_context :: "EvaluationContext option"
  cache :: "'s CacheProvider option"
  cache_state :: 's
  metrics :: SDKMetrics
  offline_mode :: bool
  clock_reads :: nat
  request_log :: "(string \<times> FlagValue) list"
  event_log :: "event list"
  sleep_log :: "int list"

definition time_time :: "world \<Rightarrow> 's client \<Rightarrow> real \<times> 's client" where
  "time_time w c = (clock w (clock_reads c), c\<lparr>clock_reads := Suc (clock_reads c)\<rparr>)"

definition fire :: "bool \<Rightarrow> event \<Rightarrow> 's client \<Rightarrow> 's client" where
  "fire handler ev c = (if handler then c\<lparr>event_log := event_log c @ [ev]\<rparr> else c)"

definition asyncio_sleep :: "int \<Rightarrow> 's client \<Rightarrow> 's client" where
  "asyncio_sleep delay c = c\<lparr>sleep_log := sleep_log c @ [delay]\<rparr>"

subsection \<open>Metrics\<close>

definition update_average_latency :: "real \<Rightarrow> SDKMetrics \<Rightarrow> SDKMetrics" where
  "update_average_latency latency_ms m =
     (if evaluations m = 0 then m\<lparr>average_latency_ms := latency_ms\<rparr>
      else
        let total_evaluations = evaluations m + 1
        in m\<lparr>average_latency_ms :=
               (average_latency_ms m * real_of_int (evaluations m) + latency_ms)
                 / real_of_int total_evaluations\<rparr>)"

subsection \<open>Cache keys: \<open>json.dumps(..., sort_keys=True)\<close>\<close>

text \<open>
  The standard encoder with its default settings: separators \<open>", "\<close> and \<open>": "\<close>,
  \<open>ensure_ascii\<close>. A character is a code point below 256. Inside a string the quote, the
  backslash and the five named control characters get their two-character escape, every
  other character outside \<open>' '..'~'\<close> becomes \<open>\uXXXX\<close> in lower-case hexadecimal.
\<close>

definition hex_digit :: "nat \<Rightarrow> char" where
  "hex_digit n = (if n < 10 then char_of (48 + n) else char_of (87 + n))"

definition escape_char :: "char \<Rightarrow> string" where
  "escape_char c =
     (if c = CHR 0x22 then [CHR 0x5C, CHR 0x22]
      else if c = CHR 0x5C then [CHR 0x5C, CHR 0x5C]
      else if c = CHR 0x0A then [CHR 0x5C, CHR ''n'']
      else if c = CHR 0x0D then [CHR 0x5C, CHR ''r'']
      else if c = CHR 0x09 then [CHR 0x5C, CHR ''t'']
      else if c = CHR 0x08 then [CHR 0x5C, CHR ''b'']
      else if c = CHR 0x0C then [CHR 0x5C, CHR ''f'']
      else if 32 \<le> (of_char c :: nat) \<and> (of_char c :: nat) \<le> 126 then [c]
      else [CHR 0x5C, CHR ''u'', CHR ''0'', CHR ''0'',
            hex_digit ((of_char c :: nat) div 16), hex_digit ((of_char c :: nat) mod 16)])"

definition encode_string :: "string \<Rightarrow> string" where
  "encode_string s = CHR 0x22 # concat (map escape_char s) @ [CHR 0x22]"

fun show_nat :: "nat \<Rightarrow> string" where
  "show_nat n =
     (if n < 10 then [char_of (48 + n)] else show_nat (n div 10) @ [char_of (48 + n mod 10)])"

definition show_int :: "int \<Rightarrow> string" where
  "show_int i = (if i < 0 then CHR ''-'' # show_nat (nat (- i)) else show_nat (nat i))"

fun encode :: "FlagValue \<Rightarrow> string"
  and encode_items :: "FlagValue list \<Rightarrow> string"
  and encode_pairs :: "(string \<times> FlagValue) list \<Rightarrow> string" where
  "encode VNone = ''null''"
| "encode (VBool b) = (if b then ''true'' else ''false'')"
| "encode (VInt i) = show_int i"
| "encode (VStr s) = encode_string s"
| "encode (VList xs) = ''['' @ encode_items xs @ '']''"
| "encode (VDict kvs) = ''{'' @ encode_pairs kvs @ ''}''"
| "encode_items [] = []"
| "encode_items [x] = encode x"
| "encode_items (x # y # ys) = encode x @ '', '' @ encode_items (y # ys)"
| "encode_pairs [] = []"
| "encode_pairs [(k, v)] = encode_string k @ '': '' @ encode v"
| "encode_pairs ((k, v) # p # ps) =
     encode_string k @ '': '' @ encode v @ '', '' @ encode_pairs (p # ps)"

text \<open>\<open>sort_keys=True\<close>: every dictionary, at every depth, is written in the order of its keys.\<close>

fun sort_keys :: "FlagValue \<Rightarrow> FlagValue" where
  "sort_keys (VList xs) = VList (map sort_keys xs)"
| "sort_keys (VDict kvs) = VDict (sort_key fst (map (\<lambda>p. (fst p, sort_keys (snd p))) kvs))"
| "sort_keys v = v"

definition json_dumps_sorted :: "FlagValue \<Rightarrow> string" where
  "json_dumps_sorted v = encode (sort_keys v)"

text \<open>\<open>d or {}\<close> for an optional dictionary.\<close>

definition or_empty :: "(string \<times> FlagValue) list option \<Rightarrow> (string \<times> FlagValue) list" where
  "or_empty d = (case d of None \<Rightarrow> [] | Some kvs \<Rightarrow> kvs)"

definition context_to_dict :: "EvaluationContext option \<Rightarrow> FlagValue" where
  "context_to_dict ctx =
     (case ctx of
        None \<Rightarrow> VDict []
      | Some c \<Rightarrow>
          VDict [(''userId'', case user_id c of None \<Rightarrow> VNone | Some u \<Rightarrow> VStr u),
                 (''attributes'', VDict (attributes c)),
                 (''device'', VDict (or_empty (device c))),
                 (''session'', VDict (or_empty (session c)))])"






definition plain :: "char \<Rightarrow> bool" where
  "plain c = (32 \<le> (of_char c :: nat) \<and> (of_char c :: nat) \<le> 126
              \<and> c \<noteq> CHR 0x22 \<and> c \<noteq> CHR 0x5C)"

definition build_cache_key :: "FlexFlagConfig \<Rightarrow> string \<Rightarrow> EvaluationContext option \<Rightarrow> string" where
  "build_cache_key cfg flag_key ctx =
     (case ctx of
        None \<Rightarrow> flag_key @ ''::'' @ environment cfg
      | Some c \<Rightarrow>
          flag_key @ ''::'' @ json_dumps_sorted (context_to_dict ctx) @ ''::'' @ environment cfg)"

subsection \<open>Cache access\<close>

text \<open>
  \<open>_get_from_cache\<close> and \<open>_set_cache\<close>: no cache configured is a miss or a no-op, and
  an exception of the provider is swallowed (after a warning).
\<close>

definition get_from_cache :: "string \<Rightarrow> 's client \<Rightarrow> FlagValue \<times> 's client" where
  "get_from_cache key c =
     (case cache c of
        None \<Rightarrow> (VNone, c)
      | Some p \<Rightarrow>
          (case cache_get p key (cache_state c) of
             (Inr v, s') \<Rightarrow> (v, c\<lparr>cache_state := s'\<rparr>)
           | (Inl e, s') \<Rightarrow> (VNone, c\<lparr>cache_state := s'\<rparr>)))"

definition set_cache :: "string \<Rightarrow> FlagValue \<Rightarrow> 's client \<Rightarrow> 's client" where
  "set_cache key v c =
     (case cache c of
        None \<Rightarrow> c
      | Some p \<Rightarrow>
          (case cache_set p key v (cache_state c) of
             (Inr u, s') \<Rightarrow> c\<lparr>cache_state := s'\<rparr>
           | (Inl e, s') \<Rightarrow> c\<lparr>cache_state := s'\<rparr>))"

subsection \<open>Offline and remote evaluation\<close>

definition evaluate_offline ::
  "world \<Rightarrow> string \<Rightarrow> FlagValue \<Rightarrow> real \<Rightarrow> 's client \<Rightarrow> EvaluationResult \<times> 's client" where
  "evaluate_offline w flag_key default_value start_time c =
     (let offline_value =
            (case default_flags (offline (config c)) flag_key of
               None \<Rightarrow> default_value
             | Some v \<Rightarrow> v);
          (t, c1) = time_time w c;
          evaluation_time = (t - start_time) * 1000;
          (ts, c2) = time_time w c1
      in (\<lparr>result_value = offline_value, variation = VNone, reason = OFFLINE,
           metadata = Some \<lparr>timestamp = ts, cache_hit = False,
                             evaluation_time_ms = evaluation_time, source = ''offline'',
                             request_id = VNone\<rparr>\<rparr>, c2))"

text \<open>\<open>d.get(k, default)\<close> on a decoded JSON object, and Python's truth value.\<close>

definition dict_get :: "(string \<times> FlagValue) list \<Rightarrow> string \<Rightarrow> FlagValue \<Rightarrow> FlagValue" where
  "dict_get kvs k dflt = (case map_of kvs k of None \<Rightarrow> dflt | Some v \<Rightarrow> v)"

fun truthy :: "FlagValue \<Rightarrow> bool" where
  "truthy VNone = False"
| "truthy (VBool b) = b"
| "truthy (VInt i) = (i \<noteq> 0)"
| "truthy (VStr s) = (s \<noteq> [])"
| "truthy (VList xs) = (xs \<noteq> [])"
| "truthy (VDict kvs) = (kvs \<noteq> [])"

definition session_post ::
  "world \<Rightarrow> string \<Rightarrow> FlagValue \<Rightarrow> 's client \<Rightarrow> http_outcome \<times> 's client" where
  "session_post w url payload c =
     (network w (length (request_log c)), c\<lparr>request_log := request_log c @ [(url, payload)]\<rparr>)"

text \<open>
  The body of the \<open>try\<close> of one attempt of \<open>_evaluate_remote\<close>: the request, and what
  each status does. A request that gets no response (a timeout, a refused connection), a
  body that is not JSON, and a body that is not an object all raise inside the \<open>try\<close>.
\<close>

definition remote_attempt ::
  "world \<Rightarrow> FlagValue \<Rightarrow> FlagValue \<Rightarrow> 's client \<Rightarrow> (error + EvaluationResult) \<times> 's client" where
  "remote_attempt w payload default_value c =
     (case session_post w ''/api/v1/evaluate'' payload c of
        (No_response, c1) \<Rightarrow> (Inl Transport_error, c1)
      | (Response status body, c1) \<Rightarrow>
          if status = 200 then
            (case body of
               None \<Rightarrow> (Inl Json_decode_error, c1)
             | Some (VDict kvs) \<Rightarrow>
                 (let (ts, c2) = time_time w c1;
                      (t, c3) = time_time w c2
                  in (Inr \<lparr>result_value = dict_get kvs ''value'' default_value,
                           variation = dict_get kvs ''variation'' VNone,
                           reason = (if truthy (dict_get kvs ''matched'' VNone)
                                     then TARGETING_MATCH else DEFAULT),
                           metadata = Some \<lparr>timestamp = ts, cache_hit = False,
                                             evaluation_time_ms = t * 1000,
                                             source = ''remote'',
                                             request_id = dict_get kvs ''requestId'' VNone\<rparr>\<rparr>,
                      c3))
             | Some _ \<Rightarrow> (Inl Attribute_error, c1))
          else if status = 404 then
            (Inr \<lparr>result_value = default_value, variation = VNone, reason = DEFAULT,
                  metadata = None\<rparr>, c1)
          else (Inl (API_returned_status status), c1))"

text \<open>
  \<open>for attempt in range(retry_attempts)\<close>: a failed attempt that is the last one raises
  its exception again, any other sleeps and goes on.
\<close>

fun evaluate_remote_loop ::
  "world \<Rightarrow> FlagValue \<Rightarrow> FlagValue \<Rightarrow> nat list \<Rightarrow> 's client
     \<Rightarrow> (error + EvaluationResult) \<times> 's client" where
  "evaluate_remote_loop w payload default_value [] c = (Inl All_retry_attempts_exhausted, c)"
| "evaluate_remote_loop w payload default_value (attempt # rest) c =
     (case remote_attempt w payload default_value c of
        (Inr result, c1) \<Rightarrow> (Inr result, c1)
      | (Inl e, c1) \<Rightarrow>
          if int attempt = retry_attempts (connection (config c1)) - 1 then (Inl e, c1)
          else
            let delay = retry_delay (connection (config c1));
                delay = (if exponential_backoff (connection (config c1))
                         then delay * 2 ^ attempt else delay)
            in evaluate_remote_loop w payload default_value rest (asyncio_sleep delay c1))"

definition evaluate_remote ::
  "world \<Rightarrow> string \<Rightarrow> EvaluationContext option \<Rightarrow> FlagValue \<Rightarrow> 's client
     \<Rightarrow> (error + EvaluationResult) \<times> 's client" where
  "evaluate_remote w flag_key ctx default_value c =
     (let payload = VDict [(''flagKey'', VStr flag_key),
                           (''context'', context_to_dict ctx),
                           (''environment'', VStr (environment (config c)))];
          c1 = c\<lparr>metrics := (metrics c)\<lparr>network_requests := network_requests (metrics c) + 1\<rparr>\<rparr>
      in evaluate_remote_loop w payload default_value
           [0 ..< nat (retry_attempts (connection (config c1)))] c1)"

text \<open>
  Two names for the statements about retries: the outcomes of a request for which the
  \<open>try\<close> of an attempt raises (no response, a status other than 200 and 404, a 200
  whose body is not a JSON object), and the delay a failed attempt sleeps.
\<close>

definition failed_attempt :: "http_outcome \<Rightarrow> bool" where
  "failed_attempt out =
     (case out of
        No_response \<Rightarrow> True
      | Response status body \<Rightarrow>
          if status = 200 then (case body of Some (VDict kvs) \<Rightarrow> False | _ \<Rightarrow> True)
          else status \<noteq> 404)"

definition backoff_delay :: "ConnectionConfig \<Rightarrow> nat \<Rightarrow> int" where
  "backoff_delay cc attempt =
     (if exponential_backoff cc then retry_delay cc * 2 ^ attempt else retry_delay cc)"

subsection \<open>Single evaluation\<close>

text \<open>\<open>context or self.context\<close>: the caller's context, else the client's own.\<close>

definition effective_context ::
  "EvaluationContext option \<Rightarrow> 's client \<Rightarrow> EvaluationContext option" where
  "effective_context ctx c = (case ctx of Some x \<Rightarrow> Some x | None \<Rightarrow> client_context c)"

text \<open>The body of the \<open>try\<close> of \<open>evaluate_with_details\<close>.\<close>

definition evaluate_try ::
  "world \<Rightarrow> string \<Rightarrow> EvaluationContext option \<Rightarrow> FlagValue \<Rightarrow> real \<Rightarrow> 's client
     \<Rightarrow> (error + EvaluationResult) \<times> 's client" where
  "evaluate_try w flag_key evaluation_context default_value start_time c =
     (let cache_key = build_cache_key (config c) flag_key evaluation_context;
          (cached_result, c1) = get_from_cache cache_key c
      in if cached_result \<noteq> VNone then
           (let c2 = c1\<lparr>metrics := (metrics c1)\<lparr>evaluations := evaluations (metrics c1) + 1\<rparr>\<rparr>;
                c3 = c2\<lparr>metrics := (metrics c2)\<lparr>cache_hits := cache_hits (metrics c2) + 1\<rparr>\<rparr>;
                c4 = fire (on_cache_hit (events (config c3))) (Cache_hit flag_key) c3;
                (t, c5) = time_time w c4;
                evaluation_time = (t - start_time) * 1000;
                c6 = c5\<lparr>metrics := update_average_latency evaluation_time (metrics c5)\<rparr>;
                (ts, c7) = time_time w c6
            in (Inr \<lparr>result_value = cached_result, variation = VNone, reason = CACHED,
                     metadata = Some \<lparr>timestamp = ts, cache_hit = True,
                                       evaluation_time_ms = evaluation_time,
                                       source = ''cache'', request_id = VNone\<rparr>\<rparr>, c7))
         else
           (let c2 = fire (on_cache_miss (events (config c1))) (Cache_miss flag_key) c1;
                c3 = c2\<lparr>metrics := (metrics c2)\<lparr>cache_misses := cache_misses (metrics c2) + 1\<rparr>\<rparr>
            in if offline_mode c3 \<or> mode (connection (config c3)) = ''offline'' then
                 (case evaluate_offline w flag_key default_value start_time c3 of
                    (result, c4) \<Rightarrow> (Inr result, c4))
               else
                 (case evaluate_remote w flag_key evaluation_context default_value c3 of
                    (Inl e, c4) \<Rightarrow> (Inl e, c4)
                  | (Inr result, c4) \<Rightarrow>
                      (let c5 = set_cache cache_key (result_value result) c4;
                           c6 = c5\<lparr>metrics :=
                                     (metrics c5)\<lparr>evaluations := evaluations (metrics c5) + 1\<rparr>\<rparr>;
                           (t, c7) = time_time w c6;
                           evaluation_time = (t - start_time) * 1000;
                           c8 = c7\<lparr>metrics := update_average_latency evaluation_time (metrics c7)\<rparr>;
                           c9 = fire (on_evaluation (events (config c8)))
                                  (Evaluation flag_key (result_value result)) c8
                       in (Inr result, c9)))))"

text \<open>
  \<open>evaluate_with_details\<close>: the \<open>try\<close> and its \<open>except Exception\<close>, which counts the
  error, reports it and answers from the offline defaults.
\<close>

definition evaluate_with_details ::
  "world \<Rightarrow> string \<Rightarrow> EvaluationContext option \<Rightarrow> FlagValue \<Rightarrow> 's client
     \<Rightarrow> (error + EvaluationResult) \<times> 's client" where
  "evaluate_with_details w flag_key ctx default_value c =
     (let (start_time, c0) = time_time w c;
          evaluation_context = effective_context ctx c0
      in case evaluate_try w flag_key evaluation_context default_value start_time c0 of
           (Inr result, c1) \<Rightarrow> (Inr result, c1)
         | (Inl e, c1) \<Rightarrow>
             (let c2 = c1\<lparr>metrics := (metrics c1)\<lparr>errors := errors (metrics c1) + 1\<rparr>\<rparr>;
                  c3 = fire (on_error (events (config c2))) (Error_event e) c2
              in case evaluate_offline w flag_key default_value start_time c3 of
                   (result, c4) \<Rightarrow> (Inr result, c4)))"

subsection \<open>Batch evaluation\<close>

text \<open>The first loop of \<open>evaluate_batch\<close>: every key is looked up in the cache.\<close>

fun batch_lookup ::
  "string list \<Rightarrow> EvaluationContext option \<Rightarrow> (string \<rightharpoonup> FlagValue) \<Rightarrow> string list \<Rightarrow> 's client
     \<Rightarrow> (string \<rightharpoonup> FlagValue) \<times> string list \<times> 's client" where
  "batch_lookup [] evaluation_context hits misses c = (hits, misses, c)"
| "batch_lookup (flag_key # rest) evaluation_context hits misses c =
     (let cache_key = build_cache_key (config c) flag_key evaluation_context;
          (cached_value, c1) = get_from_cache cache_key c
      in if cached_value \<noteq> VNone then
           (let c2 = c1\<lparr>metrics := (metrics c1)\<lparr>cache_hits := cache_hits (metrics c1) + 1\<rparr>\<rparr>;
                c3 = fire (on_cache_hit (events (config c2))) (Cache_hit flag_key) c2
            in batch_lookup rest evaluation_context (hits(flag_key \<mapsto> cached_value)) misses c3)
         else
           (let c2 = c1\<lparr>metrics := (metrics c1)\<lparr>cache_misses := cache_misses (metrics c1) + 1\<rparr>\<rparr>;
                c3 = fire (on_cache_miss (events (config c2))) (Cache_miss flag_key) c2
            in batch_lookup rest evaluation_context hits (misses @ [flag_key]) c3))"

text \<open>\<open>_evaluate_batch_remote\<close>: one request, no retry.\<close>

definition evaluate_batch_remote ::
  "world \<Rightarrow> string list \<Rightarrow> EvaluationContext option \<Rightarrow> 's client
     \<Rightarrow> (error + FlagValue) \<times> 's client" where
  "evaluate_batch_remote w flag_keys ctx c =
     (let payload = VDict [(''flags'', VList (map VStr flag_keys)),
                           (''context'', context_to_dict ctx),
                           (''environment'', VStr (environment (config c)))];
          c1 = c\<lparr>metrics := (metrics c)\<lparr>network_requests := network_requests (metrics c) + 1\<rparr>\<rparr>
      in case session_post w ''/api/v1/evaluate/batch'' payload c1 of
           (No_response, c2) \<Rightarrow> (Inl Transport_error, c2)
         | (Response status body, c2) \<Rightarrow>
             if status = 200 then
               (case body of
                  None \<Rightarrow> (Inl Json_decode_error, c2)
                | Some (VDict kvs) \<Rightarrow> (Inr (dict_get kvs ''flags'' (VDict [])), c2)
                | Some _ \<Rightarrow> (Inl Attribute_error, c2))
             else (Inl (Batch_API_returned_status status), c2))"

text \<open>The loop that caches the remote results and reports each of them.\<close>

fun cache_remote_results ::
  "(string \<times> FlagValue) list \<Rightarrow> EvaluationContext option \<Rightarrow> 's client \<Rightarrow> 's client" where
  "cache_remote_results [] evaluation_context c = c"
| "cache_remote_results ((flag_key, v) # rest) evaluation_context c =
     (let cache_key = build_cache_key (config c) flag_key evaluation_context;
          c1 = set_cache cache_key v c;
          c2 = fire (on_evaluation (events (config c1))) (Evaluation flag_key v) c1
      in cache_remote_results rest evaluation_context c2)"

text \<open>
  The loop over the cache misses that takes the offline defaults:
  \<open>default_flags.get(flag_key)\<close> is \<open>None\<close> for a key that is not configured.
\<close>

fun offline_defaults ::
  "(string \<rightharpoonup> FlagValue) \<Rightarrow> string list \<Rightarrow> (string \<rightharpoonup> FlagValue) \<Rightarrow> (string \<rightharpoonup> FlagValue)" where
  "offline_defaults dflags [] results = results"
| "offline_defaults dflags (flag_key # rest) results =
     (let offline_value = (case dflags flag_key of None \<Rightarrow> VNone | Some v \<Rightarrow> v)
      in if offline_value \<noteq> VNone
         then offline_defaults dflags rest (results(flag_key \<mapsto> offline_value))
         else offline_defaults dflags rest results)"

text \<open>The \<open>except Exception\<close> of the remote batch call.\<close>

definition batch_except ::
  "error \<Rightarrow> string list \<Rightarrow> (string \<rightharpoonup> FlagValue) \<Rightarrow> 's client \<Rightarrow> (string \<rightharpoonup> FlagValue) \<times> 's client" where
  "batch_except e misses results c =
     (let c1 = c\<lparr>metrics := (metrics c)\<lparr>errors := errors (metrics c) + 1\<rparr>\<rparr>;
          c2 = fire (on_error (events (config c1))) (Error_event e) c1
      in (offline_defaults (default_flags (offline (config c2))) misses results, c2))"

definition evaluate_batch ::
  "world \<Rightarrow> string list \<Rightarrow> EvaluationContext option \<Rightarrow> 's client
     \<Rightarrow> (string \<rightharpoonup> FlagValue) \<times> 's client" where
  "evaluate_batch w flag_keys ctx c =
     (let evaluation_context = effective_context ctx c;
          (hits, misses, c1) = batch_lookup flag_keys evaluation_context Map.empty [] c;
          results = Map.empty ++ hits;
          (results, c2) =
            (if misses \<noteq> [] \<and> \<not> offline_mode c1 \<and> mode (connection (config c1)) \<noteq> ''offline''
             then
               (case evaluate_batch_remote w misses evaluation_context c1 of
                  (Inr (VDict remote_results), c') \<Rightarrow>
                    (results ++ map_of remote_results,
                     cache_remote_results remote_results evaluation_context c')
                | (Inr _, c') \<Rightarrow> batch_except Attribute_error misses results c'
                | (Inl e, c') \<Rightarrow> batch_except e misses results c')
             else (results, c1));
          results =
            (if offline_mode c2 \<or> mode (connection (config c2)) = ''offline''
             then offline_defaults (default_flags (offline (config c2))) misses results
             else results);
          c3 = c2\<lparr>metrics :=
                    (metrics c2)\<lparr>evaluations := evaluations (metrics c2) + int (length flag_keys)\<rparr>\<rparr>
      in (results, c3))"

text \<open>
  The outcomes of the batch request for which the \<open>try\<close> of \<open>evaluate_batch\<close> raises:
  no response, a status other than 200, a body that is not a JSON object, or a \<open>flags\<close>
  entry that is not an object.
\<close>

definition failed_batch_call :: "http_outcome \<Rightarrow> bool" where
  "failed_batch_call out =
     (case out of
        No_response \<Rightarrow> True
      | Response status body \<Rightarrow>
          status \<noteq> 200 \<or>
          (case body of
             Some (VDict kvs) \<Rightarrow>
               (case dict_get kvs ''flags'' (VDict []) of VDict fl \<Rightarrow> False | _ \<Rightarrow> True)
           | _ \<Rightarrow> True))"

section \<open>Cache providers (cache.py)\<close>

subsection \<open>MemoryCache\<close>

text \<open>
  The in-memory provider keeps its entries in a \<open>TTLCache\<close> under the prefixed key.
  The state is the mapping of the entries that are live; \<open>TTLCache.get\<close> answers
  \<open>None\<close> for a key it does not hold.
\<close>

record CacheConfig =
  key_prefix :: string

definition TTLCache_get :: "(string \<rightharpoonup> FlagValue) \<Rightarrow> string \<Rightarrow> FlagValue" where
  "TTLCache_get s k = (case s k of None \<Rightarrow> VNone | Some v \<Rightarrow> v)"

definition MemoryCache_get ::
  "CacheConfig \<Rightarrow> string \<Rightarrow> (string \<rightharpoonup> FlagValue) \<Rightarrow> (error + FlagValue) \<times> (string \<rightharpoonup> FlagValue)" where
  "MemoryCache_get cfg key s =
     (let prefixed_key = key_prefix cfg @ key
      in (Inr (TTLCache_get s prefixed_key), s))"

definition MemoryCache_set ::
  "CacheConfig \<Rightarrow> string \<Rightarrow> FlagValue \<Rightarrow> (string \<rightharpoonup> FlagValue) \<Rightarrow> (error + unit) \<times> (string \<rightharpoonup> FlagValue)" where
  "MemoryCache_set cfg key v s =
     (let prefixed_key = key_prefix cfg @ key
      in (Inr (), s(prefixed_key \<mapsto> v)))"

definition MemoryCache :: "CacheConfig \<Rightarrow> (string \<rightharpoonup> FlagValue) CacheProvider" where
  "MemoryCache cfg = \<lparr>cache_get = MemoryCache_get cfg, cache_set = MemoryCache_set cfg\<rparr>"

subsection \<open>TieredCache\<close>

text \<open>
  A tier is a provider together with its state. \<open>TieredCache.get\<close> asks the tiers in
  order; \<open>probed\<close> are the tiers already asked. An exception of a tier's \<open>get\<close>, or of a
  \<open>set\<close> of the backfill, ends the call: the method has no handler.
\<close>

type_synonym 's tier = "'s CacheProvider \<times> 's"

fun backfill :: "'s tier list \<Rightarrow> string \<Rightarrow> FlagValue \<Rightarrow> (error + unit) \<times> 's tier list" where
  "backfill [] key v = (Inr (), [])"
| "backfill ((p, s) # ts) key v =
     (case cache_set p key v s of
        (Inl e, s') \<Rightarrow> (Inl e, (p, s') # ts)
      | (Inr u, s') \<Rightarrow> (case backfill ts key v of (r, ts') \<Rightarrow> (r, (p, s') # ts')))"

fun tiered_probe ::
  "'s tier list \<Rightarrow> 's tier list \<Rightarrow> string \<Rightarrow> (error + FlagValue) \<times> 's tier list" where
  "tiered_probe probed [] key = (Inr VNone, probed)"
| "tiered_probe probed ((p, s) # ts) key =
     (case cache_get p key s of
        (Inl e, s') \<Rightarrow> (Inl e, probed @ (p, s') # ts)
      | (Inr v, s') \<Rightarrow>
          if v \<noteq> VNone then
            (case backfill probed key v of
               (Inl e, probed') \<Rightarrow> (Inl e, probed' @ (p, s') # ts)
             | (Inr u, probed') \<Rightarrow> (Inr v, probed' @ (p, s') # ts))
          else tiered_probe (probed @ [(p, s')]) ts key)"

definition TieredCache_get :: "'s tier list \<Rightarrow> string \<Rightarrow> (error + FlagValue) \<times> 's tier list" where
  "TieredCache_get caches key = tiered_probe [] caches key"

subsection \<open>DiskCache\<close>

text \<open>
  The table \<open>cache(key, value, expires_at)\<close> and the provider's \<open>asyncio.Lock\<close>. Every
  method runs under \<open>async with self._lock\<close>. The lock has no owner: acquiring it while
  it is held waits for a release, and a caller that holds it itself waits for ever. A call
  either returns or never completes. Values are stored as they are (pickling is the same
  in both directions).
\<close>

datatype 'a completion = Returns 'a | Never_completes

record DiskCache =
  disk_key_prefix :: string
  rows :: "string \<rightharpoonup> FlagValue \<times> real"
  lock_held :: bool

definition DiskCache_delete :: "string \<Rightarrow> DiskCache \<Rightarrow> unit completion \<times> DiskCache" where
  "DiskCache_delete key d =
     (if lock_held d then (Never_completes, d)
      else
        let d1 = d\<lparr>lock_held := True\<rparr>;
            prefixed_key = disk_key_prefix d1 @ key;
            d2 = d1\<lparr>rows := (rows d1)(prefixed_key := None)\<rparr>
        in (Returns (), d2\<lparr>lock_held := False\<rparr>))"

definition DiskCache_get :: "real \<Rightarrow> string \<Rightarrow> DiskCache \<Rightarrow> FlagValue completion \<times> DiskCache" where
  "DiskCache_get time_now key d =
     (if lock_held d then (Never_completes, d)
      else
        let d1 = d\<lparr>lock_held := True\<rparr>;
            prefixed_key = disk_key_prefix d1 @ key
        in case rows d1 prefixed_key of
             None \<Rightarrow> (Returns VNone, d1\<lparr>lock_held := False\<rparr>)
           | Some (value_data, expires_at) \<Rightarrow>
               if expires_at < time_now then
                 (case DiskCache_delete key d1 of
                    (Never_completes, d2) \<Rightarrow> (Never_completes, d2)
                  | (Returns u, d2) \<Rightarrow> (Returns VNone, d2\<lparr>lock_held := False\<rparr>))
               else (Returns value_data, d1\<lparr>lock_held := False\<rparr>))"

section \<open>A client with the default configuration\<close>

text \<open>
  The defaults of the configuration dataclasses, and \<open>FlexFlagClient.__init__\<close> with the
  in-memory cache they select.
\<close>

definition default_config :: FlexFlagConfig where
  "default_config =
     \<lparr>environment = ''production'',
      connection = \<lparr>mode = ''streaming'', retry_attempts = 3, retry_delay = 1,
                    exponential_backoff = True\<rparr>,
      offline = \<lparr>enabled = True, default_flags = Map.empty\<rparr>,
      events = \<lparr>on_evaluation = False, on_error = False, on_cache_hit = False,
                on_cache_miss = False\<rparr>\<rparr>"

definition FlexFlagClient :: "FlexFlagConfig \<Rightarrow> (string \<rightharpoonup> FlagValue) client" where
  "FlexFlagClient cfg =
     \<lparr>config = cfg, client_context = None,
      cache = Some (MemoryCache \<lparr>key_prefix = ''flexflag:''\<rparr>), cache_state = Map.empty,
      metrics = SDKMetrics_init, offline_mode = False, clock_reads = 0, request_log = [],
      event_log = [], sleep_log = []\<rparr>"

section \<open>Scenarios\<close>

text \<open>
  A clock that advances by 10 ms between two readings, a service that never answers, a
  service that answers every request with the same status, and a client whose cache
  already holds a value for the flag \<open>dark-mode\<close>.
\<close>

definition ticking_clock :: "nat \<Rightarrow> real" where
  "ticking_clock n = real n / 100"

definition unreachable :: world where
  "unreachable = \<lparr>clock = ticking_clock, network = (\<lambda>n. No_response)\<rparr>"

definition always_status :: "int \<Rightarrow> world" where
  "always_status status = \<lparr>clock = ticking_clock, network = (\<lambda>n. Response status None)\<rparr>"

definition warm_client :: "(string \<rightharpoonup> FlagValue) client" where
  "warm_client =
     set_cache (build_cache_key default_config ''dark-mode'' None) (VBool True)
       (FlexFlagClient default_config)"

text \<open>
  A provider whose every call raises, and a client that uses it, with the offline
  default \<open>True\<close> for the flag \<open>x\<close>.
\<close>

definition raising_cache :: "(string \<rightharpoonup> FlagValue) CacheProvider" where
  "raising_cache =
     \<lparr>cache_get = (\<lambda>key s. (Inl Cache_error, s)),
      cache_set = (\<lambda>key v s. (Inl Cache_error, s))\<rparr>"

definition fallback_client :: "(string \<rightharpoonup> FlagValue) client" where
  "fallback_client =
     (FlexFlagClient
        (default_config\<lparr>offline := \<lparr>enabled = True, default_flags = [''x'' \<mapsto> VBool True]\<rparr>\<rparr>))
       \<lparr>cache := Some raising_cache\<rparr>"

text \<open>
  Clients for the batch scenarios: one with an offline default for \<open>a\<close> only, one whose
  configured default for \<open>a\<close> is \<open>None\<close>.
\<close>

definition batch_client :: "(string \<rightharpoonup> FlagValue) client" where
  "batch_client =
     FlexFlagClient
       (default_config\<lparr>offline := \<lparr>enabled = True, default_flags = [''a'' \<mapsto> VStr ''on'']\<rparr>\<rparr>)"

definition none_default_client :: "(string \<rightharpoonup> FlagValue) client" where
  "none_default_client =
     FlexFlagClient
       (default_config\<lparr>offline := \<lparr>enabled = True, default_flags = [''a'' \<mapsto> VNone]\<rparr>\<rparr>)"

text \<open>
  A service that answers every request with the value \<open>null\<close>, a configuration with
  every handler set, and the client of that configuration after one evaluation of
  \<open>dark-mode\<close> against that service.
\<close>

definition null_flag_service :: world where
  "null_flag_service =
     \<lparr>clock = ticking_clock,
      network = (\<lambda>n. Response 200 (Some (VDict [(''value'', VNone)])))\<rparr>"

definition observed_config :: FlexFlagConfig where
  "observed_config =
     default_config\<lparr>events := \<lparr>on_evaluation = True, on_error = True, on_cache_hit = True,
                                on_cache_miss = True\<rparr>\<rparr>"

definition stale_client :: "(string \<rightharpoonup> FlagValue) client" where
  "stale_client =
     snd (evaluate_with_details null_flag_service ''dark-mode'' None VNone
            (FlexFlagClient observed_config))"




text \<open>A provider that reads like the in-memory one and whose \<open>set\<close> raises.\<close>

definition failing_set :: "(string \<rightharpoonup> FlagValue) CacheProvider" where
  "failing_set =
     \<lparr>cache_get = MemoryCache_get \<lparr>key_prefix = ''flexflag:''\<rparr>,
      cache_set = (\<lambda>key v s. (Inl Cache_error, s))\<rparr>"

text \<open>A disk cache with one row, which expired at time 100.\<close>

definition expired_disk :: DiskCache where
  "expired_disk =
     \<lparr>disk_key_prefix = ''flexflag:'',
      rows = [''flexflag:k'' \<mapsto> (VStr ''v'', 100)],
      lock_held = False\<rparr>"

section \<open>Properties\<close>

lemmas pipeline_defs =
  evaluate_with_details_def evaluate_try_def get_from_cache_def set_cache_def
  effective_context_def
  build_cache_key_def time_time_def fire_def update_average_latency_def
  evaluate_offline_def evaluate_remote_def remote_attempt_def session_post_def
  asyncio_sleep_def

lemmas scenario_defs =
  FlexFlagClient_def default_config_def MemoryCache_def MemoryCache_get_def
  TTLCache_get_def MemoryCache_set_def SDKMetrics_init_def ticking_clock_def unreachable_def
  always_status_def warm_client_def raising_cache_def fallback_client_def
  batch_client_def none_default_client_def null_flag_service_def observed_config_def

subsection \<open>Retries and the offline fallback\<close>

lemma remote_attempt_failed:
  assumes "failed_attempt (network w (length (request_log c)))"
  shows "\<exists>e. remote_attempt w payload dv c =
           (Inl e, c\<lparr>request_log := request_log c @ [(''/api/v1/evaluate'', payload)]\<rparr>)"
  using assms
  by (auto simp: failed_attempt_def remote_attempt_def session_post_def
           split: http_outcome.splits option.splits FlagValue.splits if_splits)

lemma remote_attempt_status:
  assumes "network w (length (request_log c)) = Response status body"
    and "status \<noteq> 200" and "status \<noteq> 404"
  shows "remote_attempt w payload dv c =
           (Inl (API_returned_status status),
            c\<lparr>request_log := request_log c @ [(''/api/v1/evaluate'', payload)]\<rparr>)"
  using assms by (simp add: remote_attempt_def session_post_def)

lemma loop_all_failed:
  assumes fail: "\<forall>k. failed_attempt (network w k)"
    and n: "n = nat (retry_attempts (connection (config c)))"
    and a: "a \<le> n"
  shows "\<exists>e. evaluate_remote_loop w payload dv [a ..< n] c =
           (Inl e,
            c\<lparr>request_log := request_log c @ replicate (n - a) (''/api/v1/evaluate'', payload),
              sleep_log := sleep_log c @ map (backoff_delay (connection (config c))) [a ..< n - 1]\<rparr>)"
  using n a
proof (induction "n - a" arbitrary: a c)
  case 0
  then have "a = n" by simp
  then show ?case by simp
next
  case (Suc k)
  then have lt: "a < n" by simp
  then have upt: "[a ..< n] = a # [Suc a ..< n]" by (simp add: upt_conv_Cons)
  from fail obtain e where att: "remote_attempt w payload dv c =
      (Inl e, c\<lparr>request_log := request_log c @ [(''/api/v1/evaluate'', payload)]\<rparr>)"
    using remote_attempt_failed by blast
  let ?c1 = "c\<lparr>request_log := request_log c @ [(''/api/v1/evaluate'', payload)]\<rparr>"
  show ?case
  proof (cases "Suc a = n")
    case True
    then have "int a = retry_attempts (connection (config ?c1)) - 1"
      using Suc.prems by auto
    moreover have "n - a = Suc 0" "[a ..< n - 1] = []" using True by auto
    ultimately show ?thesis
      using att upt by simp
  next
    case False
    then have ne: "int a \<noteq> retry_attempts (connection (config ?c1)) - 1"
      using Suc.prems lt by auto
    let ?c2 = "asyncio_sleep (backoff_delay (connection (config c)) a) ?c1"
    have k: "k = n - Suc a" using Suc.hyps by simp
    have cfg: "n = nat (retry_attempts (connection (config ?c2)))"
      using Suc.prems by (simp add: asyncio_sleep_def)
    have le: "Suc a \<le> n" using lt by simp
    from Suc.hyps(1)[OF k cfg le] obtain e' where
      rec: "evaluate_remote_loop w payload dv [Suc a ..< n] ?c2 =
        (Inl e', ?c2\<lparr>request_log := request_log ?c2 @ replicate (n - Suc a) (''/api/v1/evaluate'', payload),
              sleep_log := sleep_log ?c2 @ map (backoff_delay (connection (config ?c2))) [Suc a ..< n - 1]\<rparr>)"
      by blast
    have step: "evaluate_remote_loop w payload dv [a ..< n] c =
       evaluate_remote_loop w payload dv [Suc a ..< n] ?c2"
      using att ne upt by (simp add: backoff_delay_def Let_def)
    have r: "replicate (n - a) (''/api/v1/evaluate'', payload)
       = (''/api/v1/evaluate'', payload) # replicate (n - Suc a) (''/api/v1/evaluate'', payload)"
      using lt by (metis Suc_diff_Suc replicate_Suc)
    have s: "[a ..< n - 1] = a # [Suc a ..< n - 1]"
      using lt False by (simp add: upt_conv_Cons)
    show ?thesis
      unfolding step rec r s by (simp add: asyncio_sleep_def)
  qed
qed

lemma evaluate_remote_all_failed:
  assumes "\<forall>k. failed_attempt (network w k)"
  shows "\<exists>e. evaluate_remote w flag_key ctx dv c =
           (Inl e,
            c\<lparr>metrics := (metrics c)\<lparr>network_requests := network_requests (metrics c) + 1\<rparr>,
              request_log := request_log c @
                replicate (nat (retry_attempts (connection (config c))))
                  (''/api/v1/evaluate'',
                   VDict [(''flagKey'', VStr flag_key), (''context'', context_to_dict ctx),
                          (''environment'', VStr (environment (config c)))]),
              sleep_log := sleep_log c @
                map (backoff_delay (connection (config c)))
                  [0 ..< nat (retry_attempts (connection (config c))) - 1]\<rparr>)"
proof -
  let ?c1 = "c\<lparr>metrics := (metrics c)\<lparr>network_requests := network_requests (metrics c) + 1\<rparr>\<rparr>"
  let ?n = "nat (retry_attempts (connection (config c)))"
  have "?n = nat (retry_attempts (connection (config ?c1)))" by simp
  from loop_all_failed[OF assms this, of 0] obtain e where
    "evaluate_remote_loop w (VDict [(''flagKey'', VStr flag_key), (''context'', context_to_dict ctx),
                          (''environment'', VStr (environment (config c)))]) dv [0 ..< ?n] ?c1 =
       (Inl e, ?c1\<lparr>request_log := request_log ?c1 @ replicate (?n - 0) (''/api/v1/evaluate'', VDict [(''flagKey'', VStr flag_key), (''context'', context_to_dict ctx),
                          (''environment'', VStr (environment (config c)))]),
              sleep_log := sleep_log ?c1 @ map (backoff_delay (connection (config ?c1))) [0 ..< ?n - 1]\<rparr>)"
    by blast
  then show ?thesis
    by (simp add: evaluate_remote_def Let_def)
qed


lemma fire_fields:
  "config (fire h ev c) = config c"
  "metrics (fire h ev c) = metrics c"
  "offline_mode (fire h ev c) = offline_mode c"
  "request_log (fire h ev c) = request_log c"
  "sleep_log (fire h ev c) = sleep_log c"
  "clock_reads (fire h ev c) = clock_reads c"
  "cache (fire h ev c) = cache c"
  "cache_state (fire h ev c) = cache_state c"
  "client_context (fire h ev c) = client_context c"
  by (simp_all add: fire_def)

lemma effective_context_clock [simp]:
  "effective_context ctx (c\<lparr>clock_reads := n\<rparr>) = effective_context ctx c"
  by (simp add: effective_context_def split: option.splits)

lemma get_from_cache_state:
  "\<exists>s'. snd (get_from_cache key c) = c\<lparr>cache_state := s'\<rparr>"
proof (cases "cache c")
  case None
  then have "snd (get_from_cache key c) = c\<lparr>cache_state := cache_state c\<rparr>"
    by (simp add: get_from_cache_def)
  then show ?thesis by blast
next
  case (Some p)
  then show ?thesis
    by (auto simp: get_from_cache_def split: prod.splits sum.splits)
qed

lemma get_from_cache_clock:
  "fst (get_from_cache key (c\<lparr>clock_reads := n\<rparr>)) = fst (get_from_cache key c)"
  by (auto simp: get_from_cache_def split: option.splits prod.splits sum.splits)

lemma evaluate_with_details_fallback:
  assumes miss: "fst (get_from_cache (build_cache_key (config c) flag_key
                   (effective_context ctx c)) c) = VNone"
    and online: "\<not> offline_mode c" "mode (connection (config c)) \<noteq> ''offline''"
    and fail: "\<forall>k. failed_attempt (network w k)"
  shows "\<exists>result c'. evaluate_with_details w flag_key ctx dv c = (Inr result, c')
           \<and> result_value result =
               (case default_flags (offline (config c)) flag_key of None \<Rightarrow> dv | Some v \<Rightarrow> v)
           \<and> reason result = OFFLINE
           \<and> errors (metrics c') = errors (metrics c) + 1
           \<and> evaluations (metrics c') = evaluations (metrics c)
           \<and> cache_misses (metrics c') = cache_misses (metrics c) + 1
           \<and> network_requests (metrics c') = network_requests (metrics c) + 1
           \<and> length (request_log c') =
               length (request_log c) + nat (retry_attempts (connection (config c)))
           \<and> sleep_log c' = sleep_log c @
               map (backoff_delay (connection (config c)))
                 [0 ..< nat (retry_attempts (connection (config c))) - 1]"
proof -
  let ?ectx = "effective_context ctx c"
  let ?key = "build_cache_key (config c) flag_key ?ectx"
  let ?c0 = "c\<lparr>clock_reads := Suc (clock_reads c)\<rparr>"
  from get_from_cache_state[of ?key ?c0]
  obtain s' where s': "snd (get_from_cache ?key ?c0) = ?c0\<lparr>cache_state := s'\<rparr>" ..
  have "fst (get_from_cache ?key ?c0) = VNone"
    using miss by (simp add: get_from_cache_clock)
  with s' have g: "get_from_cache ?key ?c0 = (VNone, ?c0\<lparr>cache_state := s'\<rparr>)"
    by (metis prod.collapse)
  let ?c1 = "?c0\<lparr>cache_state := s'\<rparr>"
  let ?c2 = "fire (on_cache_miss (events (config ?c1))) (Cache_miss flag_key) ?c1"
  let ?c3 = "?c2\<lparr>metrics := (metrics ?c2)\<lparr>cache_misses := cache_misses (metrics ?c2) + 1\<rparr>\<rparr>"
  from evaluate_remote_all_failed[OF fail, of flag_key ?ectx dv ?c3]
  obtain e where r: "evaluate_remote w flag_key ?ectx dv ?c3 =
           (Inl e,
            ?c3\<lparr>metrics := (metrics ?c3)\<lparr>network_requests := network_requests (metrics ?c3) + 1\<rparr>,
              request_log := request_log ?c3 @
                replicate (nat (retry_attempts (connection (config ?c3))))
                  (''/api/v1/evaluate'',
                   VDict [(''flagKey'', VStr flag_key), (''context'', context_to_dict ?ectx),
                          (''environment'', VStr (environment (config ?c3)))]),
              sleep_log := sleep_log ?c3 @
                map (backoff_delay (connection (config ?c3)))
                  [0 ..< nat (retry_attempts (connection (config ?c3))) - 1]\<rparr>)"
    by blast
  show ?thesis
    using online r
    by (simp add: evaluate_with_details_def evaluate_try_def time_time_def g Let_def
          evaluate_offline_def fire_fields split: prod.splits)
qed



lemma status_failed_attempt:
  "status \<noteq> 200 \<Longrightarrow> status \<noteq> 404 \<Longrightarrow> failed_attempt (Response status body)"
  by (simp add: failed_attempt_def)

text \<open>
  C4, as amended. With \<open>retry_attempts = 3\<close> and a service that answers every request
  with a status other than 200 and 404, the remote evaluation sends exactly 3 requests and
  raises, and the pipeline falls back to the offline result. The client sleeps between
  the attempts only: after the first failure for \<open>retry_delay\<close> and after the second for
  \<open>2 * retry_delay\<close> with exponential backoff (for \<open>retry_delay\<close> both times without
  it). The third failure is the last attempt, which raises without sleeping.
\<close>

theorem retry_budget_of_three:
  assumes three: "retry_attempts (connection (config c)) = 3"
    and status: "\<forall>k. \<exists>status body. network w k = Response status body
                     \<and> status \<noteq> 200 \<and> status \<noteq> 404"
  shows "(\<exists>e c'. evaluate_remote w flag_key ctx default_value c = (Inl e, c')
            \<and> length (request_log c') = length (request_log c) + 3
            \<and> sleep_log c' = sleep_log c @
                 (if exponential_backoff (connection (config c))
                  then [retry_delay (connection (config c)),
                        2 * retry_delay (connection (config c))]
                  else [retry_delay (connection (config c)),
                        retry_delay (connection (config c))]))
       \<and> (fst (get_from_cache (build_cache_key (config c) flag_key (effective_context ctx c)) c)
             = VNone
           \<and> \<not> offline_mode c \<and> mode (connection (config c)) \<noteq> ''offline''
          \<longrightarrow> (\<exists>result c'. evaluate_with_details w flag_key ctx default_value c
                               = (Inr result, c')
                 \<and> reason result = OFFLINE
                 \<and> length (request_log c') = length (request_log c) + 3
                 \<and> sleep_log c' = sleep_log c @
                      (if exponential_backoff (connection (config c))
                       then [retry_delay (connection (config c)),
                             2 * retry_delay (connection (config c))]
                       else [retry_delay (connection (config c)),
                             retry_delay (connection (config c))])))"
proof -
  have fail: "\<forall>k. failed_attempt (network w k)"
    using status status_failed_attempt by metis
  have sleeps: "map (backoff_delay (connection (config c)))
                  [0 ..< nat (retry_attempts (connection (config c))) - 1]
                = (if exponential_backoff (connection (config c))
                   then [retry_delay (connection (config c)),
                         2 * retry_delay (connection (config c))]
                   else [retry_delay (connection (config c)),
                         retry_delay (connection (config c))])"
    using three by (simp add: backoff_delay_def upt_conv_Cons)
  from evaluate_remote_all_failed[OF fail, of flag_key ctx default_value c]
  have remote: "\<exists>e c'. evaluate_remote w flag_key ctx default_value c = (Inl e, c')
            \<and> length (request_log c') = length (request_log c) + 3
            \<and> sleep_log c' = sleep_log c @
                 map (backoff_delay (connection (config c)))
                  [0 ..< nat (retry_attempts (connection (config c))) - 1]"
    using three by auto
  have pipeline: "\<exists>result c'. evaluate_with_details w flag_key ctx default_value c
                               = (Inr result, c')
                 \<and> reason result = OFFLINE
                 \<and> length (request_log c') = length (request_log c) + 3
                 \<and> sleep_log c' = sleep_log c @
                      map (backoff_delay (connection (config c)))
                        [0 ..< nat (retry_attempts (connection (config c))) - 1]"
    if "fst (get_from_cache (build_cache_key (config c) flag_key (effective_context ctx c)) c)
             = VNone" "\<not> offline_mode c" "mode (connection (config c)) \<noteq> ''offline''"
    using evaluate_with_details_fallback[OF that fail, of default_value] three by auto
  show ?thesis
    using remote pipeline unfolding sleeps by blast
qed

text \<open>The instance of C4 for the default configuration and the status 500.\<close>

theorem retry_budget_of_three_witness:
  "retry_attempts (connection (config (FlexFlagClient default_config))) = 3
   \<and> (\<forall>k. \<exists>status body. network (always_status 500) k = Response status body
                     \<and> status \<noteq> 200 \<and> status \<noteq> 404)
   \<and> (\<exists>e c'. evaluate_remote (always_status 500) ''dark-mode'' None VNone
                 (FlexFlagClient default_config) = (Inl e, c')
          \<and> length (request_log c') = 3
          \<and> sleep_log c' = [1, 2])
   \<and> (\<exists>result c'. evaluate_with_details (always_status 500) ''dark-mode'' None VNone
                 (FlexFlagClient default_config) = (Inr result, c')
          \<and> reason result = OFFLINE
          \<and> length (request_log c') = 3
          \<and> sleep_log c' = [1, 2])"
proof -
  have three: "retry_attempts (connection (config (FlexFlagClient default_config))) = 3"
    by (simp add: scenario_defs)
  have status: "\<forall>k. \<exists>status body. network (always_status 500) k = Response status body
                     \<and> status \<noteq> 200 \<and> status \<noteq> 404"
    by (simp add: scenario_defs)
  have miss: "fst (get_from_cache (build_cache_key (config (FlexFlagClient default_config))
                ''dark-mode'' (effective_context None (FlexFlagClient default_config)))
                (FlexFlagClient default_config)) = VNone
           \<and> \<not> offline_mode (FlexFlagClient default_config)
           \<and> mode (connection (config (FlexFlagClient default_config))) \<noteq> ''offline''"
    by (simp add: get_from_cache_def scenario_defs)
  have cfg: "exponential_backoff (connection (config (FlexFlagClient default_config)))"
    "retry_delay (connection (config (FlexFlagClient default_config))) = 1"
    "request_log (FlexFlagClient default_config) = []"
    "sleep_log (FlexFlagClient default_config) = []"
    by (simp_all add: scenario_defs)
  from retry_budget_of_three[OF three status, of "''dark-mode''" None VNone] miss
  show ?thesis
    using three status by (simp add: cfg)
qed

text \<open>
  C4 as stated fails: with the default configuration (3 attempts, delay 1, exponential
  backoff) and the status 500 for every request, the sleeps are 1 and 2, not 1, 2 and 4.
\<close>

theorem no_sleep_after_the_last_attempt:
  "length (request_log (snd (evaluate_remote (always_status 500) ''dark-mode'' None VNone
      (FlexFlagClient default_config)))) = 3
   \<and> sleep_log (snd (evaluate_remote (always_status 500) ''dark-mode'' None VNone
      (FlexFlagClient default_config))) = [1, 2]
   \<and> sleep_log (snd (evaluate_remote (always_status 500) ''dark-mode'' None VNone
      (FlexFlagClient default_config))) \<noteq> [1, 2, 4]"
  by (simp add: pipeline_defs scenario_defs Let_def upt_conv_Cons)

text \<open>
  C5, as amended. The status 401 is handled like every other status that is neither 200
  nor 404: when the service answers every request with 401, an evaluation that misses the
  cache sends \<open>retry_attempts\<close> requests, sleeping between them, and then degrades to
  the offline result.
\<close>

theorem unauthorized_is_retried:
  "(\<forall>k. \<exists>body. network w k = Response 401 body)
   \<and> fst (get_from_cache (build_cache_key (config c) flag_key (effective_context ctx c)) c)
       = VNone
   \<and> \<not> offline_mode c \<and> mode (connection (config c)) \<noteq> ''offline''
   \<longrightarrow> (\<exists>result c'. evaluate_with_details w flag_key ctx default_value c = (Inr result, c')
          \<and> result_value result =
              (case default_flags (offline (config c)) flag_key of
                 None \<Rightarrow> default_value | Some v \<Rightarrow> v)
          \<and> reason result = OFFLINE
          \<and> length (request_log c') =
              length (request_log c) + nat (retry_attempts (connection (config c)))
          \<and> sleep_log c' = sleep_log c @
              map (backoff_delay (connection (config c)))
                [0 ..< nat (retry_attempts (connection (config c))) - 1])"
proof (intro impI, elim conjE)
  assume status: "\<forall>k. \<exists>body. network w k = Response 401 body"
    and miss: "fst (get_from_cache (build_cache_key (config c) flag_key
                 (effective_context ctx c)) c) = VNone"
    and online: "\<not> offline_mode c" "mode (connection (config c)) \<noteq> ''offline''"
  have fail: "\<forall>k. failed_attempt (network w k)"
  proof
    fix k
    from status obtain body where "network w k = Response 401 body" by blast
    then show "failed_attempt (network w k)" by (simp add: failed_attempt_def)
  qed
  from evaluate_with_details_fallback[OF miss online fail, of default_value]
  show "\<exists>result c'. evaluate_with_details w flag_key ctx default_value c = (Inr result, c')
          \<and> result_value result =
              (case default_flags (offline (config c)) flag_key of
                 None \<Rightarrow> default_value | Some v \<Rightarrow> v)
          \<and> reason result = OFFLINE
          \<and> length (request_log c') =
              length (request_log c) + nat (retry_attempts (connection (config c)))
          \<and> sleep_log c' = sleep_log c @
              map (backoff_delay (connection (config c)))
                [0 ..< nat (retry_attempts (connection (config c))) - 1]"
    by blast
qed

text \<open>The instance of C5 for the default configuration.\<close>

theorem unauthorized_is_retried_witness:
  "(\<forall>k. \<exists>body. network (always_status 401) k = Response 401 body)
   \<and> fst (get_from_cache (build_cache_key (config (FlexFlagClient default_config))
            ''dark-mode'' (effective_context None (FlexFlagClient default_config)))
            (FlexFlagClient default_config)) = VNone
   \<and> \<not> offline_mode (FlexFlagClient default_config)
   \<and> mode (connection (config (FlexFlagClient default_config))) \<noteq> ''offline''
   \<and> (\<exists>result c'. evaluate_with_details (always_status 401) ''dark-mode'' None (VBool False)
                      (FlexFlagClient default_config) = (Inr result, c')
          \<and> result_value result = VBool False
          \<and> reason result = OFFLINE
          \<and> length (request_log c') = 3
          \<and> sleep_log c' = [1, 2])"
proof -
  have h: "(\<forall>k. \<exists>body. network (always_status 401) k = Response 401 body)
   \<and> fst (get_from_cache (build_cache_key (config (FlexFlagClient default_config))
            ''dark-mode'' (effective_context None (FlexFlagClient default_config)))
            (FlexFlagClient default_config)) = VNone
   \<and> \<not> offline_mode (FlexFlagClient default_config)
   \<and> mode (connection (config (FlexFlagClient default_config))) \<noteq> ''offline''"
    by (simp add: get_from_cache_def scenario_defs)
  have cfg: "default_flags (offline (config (FlexFlagClient default_config))) ''dark-mode'' = None"
    "nat (retry_attempts (connection (config (FlexFlagClient default_config)))) = 3"
    "map (backoff_delay (connection (config (FlexFlagClient default_config)))) [0 ..< 2] = [1, 2]"
    "request_log (FlexFlagClient default_config) = []"
    "sleep_log (FlexFlagClient default_config) = []"
    by (simp_all add: scenario_defs backoff_delay_def upt_conv_Cons)
  from unauthorized_is_retried[of "always_status 401" "FlexFlagClient default_config"
         "''dark-mode''" None "VBool False"] h
  show ?thesis by (simp add: cfg)
qed

text \<open>
  C5 as stated fails: with the default configuration and the status 401 for every
  request, the remote evaluation sends 3 requests, not 1.
\<close>

theorem unauthorized_response_is_not_terminal:
  "length (request_log (snd (evaluate_remote (always_status 401) ''dark-mode'' None VNone
      (FlexFlagClient default_config)))) = 3
   \<and> length (request_log (snd (evaluate_remote (always_status 401) ''dark-mode'' None VNone
      (FlexFlagClient default_config)))) \<noteq> 1"
  by (simp add: pipeline_defs scenario_defs Let_def upt_conv_Cons)

subsection \<open>What a remote evaluation leaves untouched\<close>

lemma asyncio_sleep_fields:
  "config (asyncio_sleep d c) = config c"
  "metrics (asyncio_sleep d c) = metrics c"
  "offline_mode (asyncio_sleep d c) = offline_mode c"
  "event_log (asyncio_sleep d c) = event_log c"
  "cache (asyncio_sleep d c) = cache c"
  "cache_state (asyncio_sleep d c) = cache_state c"
  "client_context (asyncio_sleep d c) = client_context c"
  "asyncio_sleep d (c\<lparr>cache_state := t\<rparr>) = (asyncio_sleep d c)\<lparr>cache_state := t\<rparr>"
  by (simp_all add: asyncio_sleep_def)

lemma remote_attempt_frame:
  "config (snd (remote_attempt w p dv c)) = config c
   \<and> metrics (snd (remote_attempt w p dv c)) = metrics c
   \<and> offline_mode (snd (remote_attempt w p dv c)) = offline_mode c
   \<and> event_log (snd (remote_attempt w p dv c)) = event_log c
   \<and> cache (snd (remote_attempt w p dv c)) = cache c
   \<and> cache_state (snd (remote_attempt w p dv c)) = cache_state c
   \<and> client_context (snd (remote_attempt w p dv c)) = client_context c"
  by (auto simp: remote_attempt_def session_post_def time_time_def Let_def
           split: http_outcome.splits option.splits FlagValue.splits)

lemma remote_attempt_reason:
  "fst (remote_attempt w p dv c) = Inr result \<Longrightarrow> reason result \<noteq> CACHED \<and> reason result \<noteq> OFFLINE"
  by (auto simp: remote_attempt_def session_post_def time_time_def Let_def
           split: http_outcome.splits option.splits FlagValue.splits if_splits)

lemma remote_attempt_cache_state:
  "remote_attempt w p dv (c\<lparr>cache_state := t\<rparr>) =
     (fst (remote_attempt w p dv c), (snd (remote_attempt w p dv c))\<lparr>cache_state := t\<rparr>)"
  by (auto simp: remote_attempt_def session_post_def time_time_def Let_def
           split: http_outcome.splits option.splits FlagValue.splits)

lemma evaluate_remote_loop_frame:
  "config (snd (evaluate_remote_loop w p dv attempts c)) = config c
   \<and> metrics (snd (evaluate_remote_loop w p dv attempts c)) = metrics c
   \<and> offline_mode (snd (evaluate_remote_loop w p dv attempts c)) = offline_mode c
   \<and> event_log (snd (evaluate_remote_loop w p dv attempts c)) = event_log c
   \<and> cache (snd (evaluate_remote_loop w p dv attempts c)) = cache c
   \<and> cache_state (snd (evaluate_remote_loop w p dv attempts c)) = cache_state c
   \<and> client_context (snd (evaluate_remote_loop w p dv attempts c)) = client_context c"
proof (induction attempts arbitrary: c)
  case Nil
  then show ?case by simp
next
  case (Cons a attempts)
  obtain r c1 where ra: "remote_attempt w p dv c = (r, c1)" by (metis prod.collapse)
  from remote_attempt_frame[of w p dv c] ra
  have fr: "config c1 = config c" "metrics c1 = metrics c" "offline_mode c1 = offline_mode c"
    "event_log c1 = event_log c" "cache c1 = cache c" "cache_state c1 = cache_state c"
    "client_context c1 = client_context c" by simp_all
  show ?case
  proof (cases r)
    case (Inr res)
    then show ?thesis using ra fr by simp
  next
    case (Inl e)
    then show ?thesis
      using ra fr Cons.IH[of "asyncio_sleep d c1" for d]
      by (simp add: Let_def asyncio_sleep_fields)
  qed
qed

lemma evaluate_remote_loop_reason:
  "fst (evaluate_remote_loop w p dv attempts c) = Inr result
     \<Longrightarrow> reason result \<noteq> CACHED \<and> reason result \<noteq> OFFLINE"
proof (induction attempts arbitrary: c)
  case Nil
  then show ?case by simp
next
  case (Cons a attempts)
  obtain r c1 where ra: "remote_attempt w p dv c = (r, c1)" by (metis prod.collapse)
  show ?case
  proof (cases r)
    case (Inr res)
    with Cons.prems ra have "res = result" by simp
    with remote_attempt_reason[of w p dv c result] ra Inr show ?thesis by simp
  next
    case (Inl e)
    with Cons.prems ra show ?thesis
      by (auto simp: Let_def split: if_splits dest: Cons.IH)
  qed
qed

lemma evaluate_remote_loop_cache_state:
  "evaluate_remote_loop w p dv attempts (c\<lparr>cache_state := t\<rparr>) =
     (fst (evaluate_remote_loop w p dv attempts c),
      (snd (evaluate_remote_loop w p dv attempts c))\<lparr>cache_state := t\<rparr>)"
proof (induction attempts arbitrary: c)
  case Nil
  then show ?case by simp
next
  case (Cons a attempts)
  obtain r c1 where ra: "remote_attempt w p dv c = (r, c1)" by (metis prod.collapse)
  from remote_attempt_frame[of w p dv c] ra have cfg: "config c1 = config c" by simp
  have ra': "remote_attempt w p dv (c\<lparr>cache_state := t\<rparr>) = (r, c1\<lparr>cache_state := t\<rparr>)"
    by (simp add: remote_attempt_cache_state ra)
  show ?case
  proof (cases r)
    case (Inr res)
    then show ?thesis using ra ra' by simp
  next
    case (Inl e)
    then show ?thesis
      using ra ra' Cons.IH[of "asyncio_sleep d c1" for d]
      by (simp add: Let_def asyncio_sleep_fields cfg)
  qed
qed

lemma evaluate_remote_frame:
  "config (snd (evaluate_remote w fk ectx dv c)) = config c
   \<and> metrics (snd (evaluate_remote w fk ectx dv c))
       = (metrics c)\<lparr>network_requests := network_requests (metrics c) + 1\<rparr>
   \<and> offline_mode (snd (evaluate_remote w fk ectx dv c)) = offline_mode c
   \<and> event_log (snd (evaluate_remote w fk ectx dv c)) = event_log c
   \<and> cache (snd (evaluate_remote w fk ectx dv c)) = cache c
   \<and> cache_state (snd (evaluate_remote w fk ectx dv c)) = cache_state c
   \<and> client_context (snd (evaluate_remote w fk ectx dv c)) = client_context c"
  by (simp add: evaluate_remote_def Let_def evaluate_remote_loop_frame)

lemma evaluate_remote_reason:
  "fst (evaluate_remote w fk ectx dv c) = Inr result
     \<Longrightarrow> reason result \<noteq> CACHED \<and> reason result \<noteq> OFFLINE"
  unfolding evaluate_remote_def Let_def by (rule evaluate_remote_loop_reason)

lemma evaluate_remote_cache_state:
  "evaluate_remote w fk ectx dv (c\<lparr>cache_state := t\<rparr>) =
     (fst (evaluate_remote w fk ectx dv c), (snd (evaluate_remote w fk ectx dv c))\<lparr>cache_state := t\<rparr>)"
proof -
  have eq: "c\<lparr>cache_state := t,
          metrics := (metrics c)\<lparr>network_requests := network_requests (metrics c) + 1\<rparr>\<rparr>
      = (c\<lparr>metrics := (metrics c)\<lparr>network_requests := network_requests (metrics c) + 1\<rparr>\<rparr>)
          \<lparr>cache_state := t\<rparr>" by simp
  show ?thesis
    apply (simp add: evaluate_remote_def Let_def)
    apply (subst eq)
    apply (rule evaluate_remote_loop_cache_state)
    done
qed

subsection \<open>A cache miss, and caches that read alike\<close>

lemma set_cache_state:
  "\<exists>s'. set_cache key v c = c\<lparr>cache_state := s'\<rparr>"
proof (cases "cache c")
  case None
  then have "set_cache key v c = c\<lparr>cache_state := cache_state c\<rparr>"
    by (simp add: set_cache_def)
  then show ?thesis by blast
next
  case (Some p)
  then show ?thesis
    by (auto simp: set_cache_def split: prod.splits sum.splits)
qed

lemma memory_get_from_cache:
  "cache c = Some (MemoryCache mc) \<Longrightarrow>
     get_from_cache key c = (TTLCache_get (cache_state c) (key_prefix mc @ key), c)"
  by (simp add: get_from_cache_def MemoryCache_def MemoryCache_get_def)

lemma memory_set_cache:
  "cache c = Some (MemoryCache mc) \<Longrightarrow>
     set_cache key v c = c\<lparr>cache_state := (cache_state c)(key_prefix mc @ key \<mapsto> v)\<rparr>"
  by (simp add: set_cache_def MemoryCache_def MemoryCache_set_def)

lemma evaluate_with_details_miss:
  assumes miss: "fst (get_from_cache (build_cache_key (config c) flag_key
                   (effective_context ctx c)) c) = VNone"
  shows "\<exists>result c'. evaluate_with_details w flag_key ctx dv c = (Inr result, c')
           \<and> reason result \<noteq> CACHED
           \<and> cache_misses (metrics c') = cache_misses (metrics c) + 1
           \<and> cache_hits (metrics c') = cache_hits (metrics c)
           \<and> (on_cache_miss (events (config c)) \<longrightarrow>
                take (Suc (length (event_log c))) (event_log c')
                  = event_log c @ [Cache_miss flag_key])
           \<and> Cache_hit flag_key \<notin> set (drop (length (event_log c)) (event_log c'))
           \<and> (if offline_mode c \<or> mode (connection (config c)) = ''offline''
               then reason result = OFFLINE
                    \<and> network_requests (metrics c') = network_requests (metrics c)
               else network_requests (metrics c') = network_requests (metrics c) + 1)"
proof -
  let ?ectx = "effective_context ctx c"
  let ?key = "build_cache_key (config c) flag_key ?ectx"
  let ?c0 = "c\<lparr>clock_reads := Suc (clock_reads c)\<rparr>"
  from get_from_cache_state[of ?key ?c0]
  obtain s' where s': "snd (get_from_cache ?key ?c0) = ?c0\<lparr>cache_state := s'\<rparr>" ..
  have "fst (get_from_cache ?key ?c0) = VNone"
    using miss by (simp add: get_from_cache_clock)
  with s' have g: "get_from_cache ?key ?c0 = (VNone, ?c0\<lparr>cache_state := s'\<rparr>)"
    by (metis prod.collapse)
  let ?c1 = "?c0\<lparr>cache_state := s'\<rparr>"
  let ?c2 = "fire (on_cache_miss (events (config ?c1))) (Cache_miss flag_key) ?c1"
  let ?c3 = "?c2\<lparr>metrics := (metrics ?c2)\<lparr>cache_misses := cache_misses (metrics ?c2) + 1\<rparr>\<rparr>"
  show ?thesis
  proof (cases "offline_mode c \<or> mode (connection (config c)) = ''offline''")
    case True
    then show ?thesis
      by (auto simp: evaluate_with_details_def evaluate_try_def time_time_def g Let_def
            evaluate_offline_def fire_def)
  next
    case False
    obtain r c4 where r: "evaluate_remote w flag_key ?ectx dv ?c3 = (r, c4)"
      by (metis prod.collapse)
    from evaluate_remote_frame[of w flag_key ?ectx dv ?c3] r
    have fr: "config c4 = config c"
      "metrics c4 = (metrics ?c3)\<lparr>network_requests := network_requests (metrics ?c3) + 1\<rparr>"
      "event_log c4 = event_log ?c3"
      by (simp_all add: fire_fields)
    obtain s'' where sc: "set_cache ?key v c4 = c4\<lparr>cache_state := s'' v\<rparr>" for v
      using set_cache_state[of ?key _ c4] by metis
    show ?thesis
    proof (cases r)
      case (Inl e)
      show ?thesis
        using False r Inl fr
        by (auto simp: evaluate_with_details_def evaluate_try_def time_time_def g Let_def
              evaluate_offline_def fire_def)
    next
      case (Inr result)
      from evaluate_remote_reason[of w flag_key ?ectx dv ?c3 result] r Inr
      have "reason result \<noteq> CACHED" by simp
      then show ?thesis
        using False r Inr fr
        by (auto simp: evaluate_with_details_def evaluate_try_def time_time_def g Let_def
              fire_def sc update_average_latency_def)
    qed
  qed
qed

lemma evaluate_with_details_alike:
  assumes mem: "cache c = Some (MemoryCache mc)"
    and alike: "\<forall>k. TTLCache_get (cache_state c) k = TTLCache_get t k"
  shows "\<exists>t'. evaluate_with_details w flag_key ctx dv (c\<lparr>cache_state := t\<rparr>) =
           (fst (evaluate_with_details w flag_key ctx dv c),
            (snd (evaluate_with_details w flag_key ctx dv c))\<lparr>cache_state := t'\<rparr>)"
proof -
  let ?ectx = "effective_context ctx c"
  let ?key = "build_cache_key (config c) flag_key ?ectx"
  let ?pk = "key_prefix mc @ ?key"
  let ?v = "TTLCache_get (cache_state c) ?pk"
  have vt: "TTLCache_get t ?pk = ?v" using alike by simp
  have ectx: "effective_context ctx (c\<lparr>cache_state := t\<rparr>) = ?ectx"
    "effective_context ctx (c\<lparr>cache_state := t, clock_reads := n\<rparr>) = ?ectx" for n
    by (simp_all add: effective_context_def split: option.splits)
  note defs = evaluate_with_details_def evaluate_try_def time_time_def Let_def
    evaluate_offline_def fire_def memory_get_from_cache[where mc = mc] mem vt ectx
    update_average_latency_def
  show ?thesis
  proof (cases "?v \<noteq> VNone")
    case True
    then show ?thesis
      by (intro exI[of _ t]) (simp add: defs)
  next
    case none: False
    show ?thesis
    proof (cases "offline_mode c \<or> mode (connection (config c)) = ''offline''")
      case True
      with none show ?thesis
        by (intro exI[of _ t]) (auto simp: defs)
    next
      case False
      let ?c0 = "c\<lparr>clock_reads := Suc (clock_reads c)\<rparr>"
      let ?c2 = "fire (on_cache_miss (events (config ?c0))) (Cache_miss flag_key) ?c0"
      let ?c3 = "?c2\<lparr>metrics := (metrics ?c2)\<lparr>cache_misses := cache_misses (metrics ?c2) + 1\<rparr>\<rparr>"
      obtain r c4 where r: "evaluate_remote w flag_key ?ectx dv ?c3 = (r, c4)"
        by (metis prod.collapse)
      let ?d0 = "c\<lparr>cache_state := t, clock_reads := Suc (clock_reads c)\<rparr>"
      let ?d2 = "fire (on_cache_miss (events (config ?d0))) (Cache_miss flag_key) ?d0"
      let ?d3 = "?d2\<lparr>metrics := (metrics ?d2)\<lparr>cache_misses := cache_misses (metrics ?d2) + 1\<rparr>\<rparr>"
      have d3: "?d3 = ?c3\<lparr>cache_state := t\<rparr>"
        by (simp add: fire_def)
      have r': "evaluate_remote w flag_key ?ectx dv ?d3 = (r, c4\<lparr>cache_state := t\<rparr>)"
        by (simp only: d3 evaluate_remote_cache_state r fst_conv snd_conv)
      from evaluate_remote_frame[of w flag_key ?ectx dv ?c3] r
      have fr: "config c4 = config c" "cache c4 = Some (MemoryCache mc)"
        "cache_state c4 = cache_state c"
        by (simp_all add: fire_fields mem)
      show ?thesis
      proof (cases r)
        case (Inl e)
        show ?thesis
          using False none r r' Inl fr
          by (intro exI[of _ t]) (auto simp: defs)
      next
        case (Inr result)
        have sc: "set_cache ?key (result_value result) c4
                    = c4\<lparr>cache_state := (cache_state c)(?pk \<mapsto> result_value result)\<rparr>"
          "set_cache ?key (result_value result) (c4\<lparr>cache_state := t\<rparr>)
                    = c4\<lparr>cache_state := t(?pk \<mapsto> result_value result)\<rparr>"
          using fr by (simp_all add: memory_set_cache[where mc = mc])
        show ?thesis
          using False none r r' Inr fr
          by (intro exI[of _ "t(?pk \<mapsto> result_value result)"]) (auto simp: defs sc)
      qed
    qed
  qed
qed

subsection \<open>Batch evaluation\<close>

text \<open>What the first loop of a batch leaves untouched.\<close>

lemma batch_lookup_frame:
  assumes "batch_lookup keys ectx hits misses c = (hits', misses', c')"
  shows "config c' = config c \<and> offline_mode c' = offline_mode c
         \<and> request_log c' = request_log c \<and> sleep_log c' = sleep_log c
         \<and> network_requests (metrics c') = network_requests (metrics c)
         \<and> errors (metrics c') = errors (metrics c)
         \<and> evaluations (metrics c') = evaluations (metrics c)"
  using assms
proof (induction keys arbitrary: hits misses c)
  case Nil
  then show ?case by simp
next
  case (Cons k keys)
  from get_from_cache_state[of "build_cache_key (config c) k ectx" c]
  obtain s' where s': "snd (get_from_cache (build_cache_key (config c) k ectx) c)
                        = c\<lparr>cache_state := s'\<rparr>" ..
  obtain v where g: "get_from_cache (build_cache_key (config c) k ectx) c
                       = (v, c\<lparr>cache_state := s'\<rparr>)"
    using s' by (metis prod.collapse)
  show ?case
  proof (cases "v \<noteq> VNone")
    case True
    with Cons.prems g have
      "batch_lookup keys ectx (hits(k \<mapsto> v)) misses
         (fire (on_cache_hit (events (config c))) (Cache_hit k)
            (c\<lparr>cache_state := s',
               metrics := (metrics c)\<lparr>cache_hits := cache_hits (metrics c) + 1\<rparr>\<rparr>))
       = (hits', misses', c')"
      by (simp add: Let_def)
    from Cons.IH[OF this] show ?thesis by (simp add: fire_fields)
  next
    case False
    with Cons.prems g have
      "batch_lookup keys ectx hits (misses @ [k])
         (fire (on_cache_miss (events (config c))) (Cache_miss k)
            (c\<lparr>cache_state := s',
               metrics := (metrics c)\<lparr>cache_misses := cache_misses (metrics c) + 1\<rparr>\<rparr>))
       = (hits', misses', c')"
      by (simp add: Let_def)
    from Cons.IH[OF this] show ?thesis by (simp add: fire_fields)
  qed
qed

lemma batch_lookup_partition:
  assumes "batch_lookup keys ectx hits misses c = (hits', misses', c')"
    and "distinct keys" and "set keys \<inter> (dom hits \<union> set misses) = {}"
    and "dom hits \<inter> set misses = {}"
  shows "dom hits' \<inter> set misses' = {}"
  using assms
proof (induction keys arbitrary: hits misses c)
  case Nil
  then show ?case by simp
next
  case (Cons k keys)
  obtain v c1 where g: "get_from_cache (build_cache_key (config c) k ectx) c = (v, c1)"
    by (metis prod.collapse)
  show ?case
  proof (cases "v \<noteq> VNone")
    case True
    with Cons.prems(1) g obtain c2 where
      l: "batch_lookup keys ectx (hits(k \<mapsto> v)) misses c2 = (hits', misses', c')"
      by (simp add: Let_def)
    show ?thesis
      by (rule Cons.IH[OF l]) (use Cons.prems(2-4) in \<open>auto split: if_splits simp: disjoint_iff domIff\<close>)
  next
    case False
    with Cons.prems(1) g obtain c2 where
      l: "batch_lookup keys ectx hits (misses @ [k]) c2 = (hits', misses', c')"
      by (simp add: Let_def)
    show ?thesis
      by (rule Cons.IH[OF l]) (use Cons.prems(2-4) in \<open>auto split: if_splits simp: disjoint_iff domIff\<close>)
  qed
qed

lemma offline_defaults_lookup:
  "offline_defaults dflags misses results k =
     (if k \<in> set misses \<and> (\<exists>v. dflags k = Some v \<and> v \<noteq> VNone) then dflags k else results k)"
  by (induction misses arbitrary: results) (auto simp: Let_def split: option.splits)

lemma cache_remote_results_frame:
  "config (cache_remote_results rs ectx c) = config c
   \<and> offline_mode (cache_remote_results rs ectx c) = offline_mode c
   \<and> request_log (cache_remote_results rs ectx c) = request_log c
   \<and> metrics (cache_remote_results rs ectx c) = metrics c"
proof (induction rs arbitrary: c)
  case Nil
  then show ?case by simp
next
  case (Cons r rs)
  obtain k v where r: "r = (k, v)" by (cases r)
  from set_cache_state[of "build_cache_key (config c) k ectx" v c]
  obtain s' where s: "set_cache (build_cache_key (config c) k ectx) v c = c\<lparr>cache_state := s'\<rparr>" ..
  show ?case
    using Cons.IH[of "fire (on_evaluation (events (config c))) (Evaluation k v)
                        (c\<lparr>cache_state := s'\<rparr>)"]
    by (simp add: r s Let_def fire_fields)
qed

lemma evaluate_batch_remote_request:
  "\<exists>r. evaluate_batch_remote w keys ectx c =
     (r, c\<lparr>metrics := (metrics c)\<lparr>network_requests := network_requests (metrics c) + 1\<rparr>,
          request_log := request_log c @
            [(''/api/v1/evaluate/batch'',
              VDict [(''flags'', VList (map VStr keys)), (''context'', context_to_dict ectx),
                     (''environment'', VStr (environment (config c)))])]\<rparr>)
     \<and> (failed_batch_call (network w (length (request_log c)))
          \<longrightarrow> (case r of Inr (VDict fl) \<Rightarrow> False | _ \<Rightarrow> True))"
  by (auto simp: evaluate_batch_remote_def session_post_def failed_batch_call_def Let_def
           split: http_outcome.splits option.splits FlagValue.splits)

text \<open>
  C9, as amended. In a batch evaluation of an online client, let \<open>hits\<close> and \<open>misses\<close>
  be what the cache lookups of the batch gave. When there is a miss, all missed keys go
  into one request to the batch endpoint, and \<open>network_requests\<close> grows by exactly 1
  whatever their number. When that call fails, every missed key whose configured offline
  default is not \<open>None\<close> is in the result with that default, and every missed key with
  no configured default, or with the configured default \<open>None\<close>, is left as the lookups
  left it: absent from the result when the keys of the batch are distinct.
\<close>

theorem batch_misses_take_one_call_then_defaults:
  assumes lookup: "batch_lookup flag_keys (effective_context ctx c) Map.empty [] c
                     = (hits, misses, c1)"
    and some: "misses \<noteq> []"
    and online: "\<not> offline_mode c" "mode (connection (config c)) \<noteq> ''offline''"
  shows "network_requests (metrics (snd (evaluate_batch w flag_keys ctx c)))
           = network_requests (metrics c) + 1
       \<and> request_log (snd (evaluate_batch w flag_keys ctx c))
           = request_log c @
               [(''/api/v1/evaluate/batch'',
                 VDict [(''flags'', VList (map VStr misses)),
                        (''context'', context_to_dict (effective_context ctx c)),
                        (''environment'', VStr (environment (config c)))])]
       \<and> (failed_batch_call (network w (length (request_log c))) \<longrightarrow>
            (\<forall>k \<in> set misses.
               fst (evaluate_batch w flag_keys ctx c) k =
                 (case default_flags (offline (config c)) k of
                    Some v \<Rightarrow> if v \<noteq> VNone then Some v else hits k
                  | None \<Rightarrow> hits k)))
       \<and> (distinct flag_keys \<longrightarrow> (\<forall>k \<in> set misses. hits k = None))"
proof -
  let ?ectx = "effective_context ctx c"
  note fr = batch_lookup_frame[OF lookup]
  from evaluate_batch_remote_request[of w misses ?ectx c1]
  obtain r where rem: "evaluate_batch_remote w misses ?ectx c1 =
     (r, c1\<lparr>metrics := (metrics c1)\<lparr>network_requests := network_requests (metrics c1) + 1\<rparr>,
          request_log := request_log c1 @
            [(''/api/v1/evaluate/batch'',
              VDict [(''flags'', VList (map VStr misses)), (''context'', context_to_dict ?ectx),
                     (''environment'', VStr (environment (config c1)))])]\<rparr>)"
    and failed: "failed_batch_call (network w (length (request_log c1)))
          \<longrightarrow> (case r of Inr (VDict fl) \<Rightarrow> False | _ \<Rightarrow> True)"
    by blast
  let ?c2 = "c1\<lparr>metrics := (metrics c1)\<lparr>network_requests := network_requests (metrics c1) + 1\<rparr>,
          request_log := request_log c1 @
            [(''/api/v1/evaluate/batch'',
              VDict [(''flags'', VList (map VStr misses)), (''context'', context_to_dict ?ectx),
                     (''environment'', VStr (environment (config c1)))])]\<rparr>"
  have on1: "\<not> offline_mode c1" "mode (connection (config c1)) \<noteq> ''offline''"
    using online fr by simp_all
  have part: "distinct flag_keys \<longrightarrow> (\<forall>k \<in> set misses. hits k = None)"
  proof (intro impI ballI)
    fix k
    assume d: "distinct flag_keys" and k: "k \<in> set misses"
    from batch_lookup_partition[OF lookup d] have "dom hits \<inter> set misses = {}" by simp
    with k show "hits k = None" by (meson disjoint_iff domIff)
  qed
  show ?thesis
  proof (cases "\<exists>fl. r = Inr (VDict fl)")
    case True
    then obtain fl where r: "r = Inr (VDict fl)" by blast
    have eb: "evaluate_batch w flag_keys ctx c =
        (Map.empty ++ hits ++ map_of fl,
         (cache_remote_results fl ?ectx ?c2)
           \<lparr>metrics := (metrics (cache_remote_results fl ?ectx ?c2))
              \<lparr>evaluations := evaluations (metrics (cache_remote_results fl ?ectx ?c2))
                                + int (length flag_keys)\<rparr>\<rparr>)"
      using on1 some
      by (simp add: evaluate_batch_def lookup rem r Let_def cache_remote_results_frame)
    have nofail: "\<not> failed_batch_call (network w (length (request_log c)))"
      using failed r fr by simp
    show ?thesis
      unfolding eb using nofail part fr
      by (simp add: cache_remote_results_frame)
  next
    case False
    obtain e where e: "e = (case r of Inl x \<Rightarrow> x | Inr v \<Rightarrow> Attribute_error)" by simp
    let ?c3 = "fire (on_error (events (config ?c2))) (Error_event e)
                 (?c2\<lparr>metrics := (metrics ?c2)\<lparr>errors := errors (metrics ?c2) + 1\<rparr>\<rparr>)"
    have eb: "evaluate_batch w flag_keys ctx c =
        (offline_defaults (default_flags (offline (config c))) misses (Map.empty ++ hits),
         ?c3\<lparr>metrics := (metrics ?c3)
              \<lparr>evaluations := evaluations (metrics ?c3) + int (length flag_keys)\<rparr>\<rparr>)"
      using on1 some False fr
      by (cases r; simp add: evaluate_batch_def lookup rem e Let_def batch_except_def fire_fields
             split: FlagValue.splits)
    show ?thesis
      unfolding eb using part fr
      by (auto simp: fire_fields offline_defaults_lookup split: option.splits)
  qed
qed

lemmas batch_defs =
  evaluate_batch_def evaluate_batch_remote_def batch_except_def session_post_def
  get_from_cache_def set_cache_def build_cache_key_def effective_context_def fire_def

text \<open>
  The instance of C9 for the keys \<open>a\<close> and \<open>b\<close>, an unreachable service and an offline
  default for \<open>a\<close> only: the result holds \<open>a\<close> and omits \<open>b\<close>.
\<close>

theorem batch_misses_take_one_call_then_defaults_witness:
  "batch_lookup [''a'', ''b''] (effective_context None batch_client) Map.empty [] batch_client
     = (Map.empty, [''a'', ''b''],
        snd (snd (batch_lookup [''a'', ''b''] (effective_context None batch_client) Map.empty []
                    batch_client)))
   \<and> [''a'', ''b''] \<noteq> ([] :: string list)
   \<and> \<not> offline_mode batch_client
   \<and> mode (connection (config batch_client)) \<noteq> ''offline''
   \<and> failed_batch_call (network unreachable (length (request_log batch_client)))
   \<and> distinct [''a'', ''b'']
   \<and> network_requests (metrics (snd (evaluate_batch unreachable [''a'', ''b''] None batch_client)))
       = 1
   \<and> length (request_log (snd (evaluate_batch unreachable [''a'', ''b''] None batch_client))) = 1
   \<and> fst (evaluate_batch unreachable [''a'', ''b''] None batch_client) ''a'' = Some (VStr ''on'')
   \<and> fst (evaluate_batch unreachable [''a'', ''b''] None batch_client) ''b'' = None"
proof -
  have lk: "batch_lookup [''a'', ''b''] (effective_context None batch_client) Map.empty []
              batch_client
     = (Map.empty, [''a'', ''b''],
        snd (snd (batch_lookup [''a'', ''b''] (effective_context None batch_client) Map.empty []
                    batch_client)))"
    by (simp add: batch_defs scenario_defs Let_def)
  have ne: "[''a'', ''b''] \<noteq> ([] :: string list)" by simp
  have on: "\<not> offline_mode batch_client" "mode (connection (config batch_client)) \<noteq> ''offline''"
    by (simp_all add: scenario_defs)
  have failed: "failed_batch_call (network unreachable (length (request_log batch_client)))"
    by (simp add: failed_batch_call_def scenario_defs)
  have cfg: "network_requests (metrics batch_client) = 0" "request_log batch_client = []"
    "default_flags (offline (config batch_client)) ''a'' = Some (VStr ''on'')"
    "default_flags (offline (config batch_client)) ''b'' = None"
    by (simp_all add: scenario_defs)
  from batch_misses_take_one_call_then_defaults[OF lk ne on, of unreachable] failed
  show ?thesis
    using lk on by (simp add: cfg)
qed

text \<open>
  C9 as stated fails: the key \<open>a\<close> has a configured offline default, the value \<open>None\<close>,
  the batch call fails, and \<open>a\<close> is not in the result.
\<close>

theorem configured_default_none_is_omitted:
  "default_flags (offline (config none_default_client)) ''a'' = Some VNone
   \<and> fst (evaluate_batch unreachable [''a''] None none_default_client) ''a'' = None"
  by (simp add: batch_defs scenario_defs Let_def)

subsection \<open>Batch evaluation over caches that read alike\<close>

text \<open>
  With the in-memory provider the lookups of a batch do not change the cache, so the loop
  has a closed form: the misses are the keys whose entry reads \<open>None\<close>, in order.
\<close>

lemma batch_lookup_memory:
  assumes mem: "cache c = Some (MemoryCache mc)"
  shows "batch_lookup keys ectx hits misses c =
     (foldl (\<lambda>h k. if TTLCache_get (cache_state c)
                          (key_prefix mc @ build_cache_key (config c) k ectx) \<noteq> VNone
                     then h(k \<mapsto> TTLCache_get (cache_state c)
                          (key_prefix mc @ build_cache_key (config c) k ectx)) else h) hits keys,
      misses @ filter (\<lambda>k. TTLCache_get (cache_state c)
                          (key_prefix mc @ build_cache_key (config c) k ectx) = VNone) keys,
      c\<lparr>metrics := (metrics c)
           \<lparr>cache_hits := cache_hits (metrics c) +
              int (length (filter (\<lambda>k. TTLCache_get (cache_state c)
                          (key_prefix mc @ build_cache_key (config c) k ectx) \<noteq> VNone) keys)),
            cache_misses := cache_misses (metrics c) +
              int (length (filter (\<lambda>k. TTLCache_get (cache_state c)
                          (key_prefix mc @ build_cache_key (config c) k ectx) = VNone) keys))\<rparr>,
         event_log := event_log c @
           concat (map (\<lambda>k. if TTLCache_get (cache_state c)
                          (key_prefix mc @ build_cache_key (config c) k ectx) \<noteq> VNone
                        then (if on_cache_hit (events (config c)) then [Cache_hit k] else [])
                        else (if on_cache_miss (events (config c)) then [Cache_miss k] else []))
                  keys)\<rparr>)"
  using mem
proof (induction keys arbitrary: hits misses c)
  case Nil
  then show ?case by simp
next
  case (Cons k keys)
  let ?v = "TTLCache_get (cache_state c) (key_prefix mc @ build_cache_key (config c) k ectx)"
  have g: "get_from_cache (build_cache_key (config c) k ectx) c = (?v, c)"
    using Cons.prems by (rule memory_get_from_cache)
  show ?case
  proof (cases "?v \<noteq> VNone")
    case True
    let ?c3 = "fire (on_cache_hit (events (config c))) (Cache_hit k)
                 (c\<lparr>metrics := (metrics c)\<lparr>cache_hits := cache_hits (metrics c) + 1\<rparr>\<rparr>)"
    have m3: "cache ?c3 = Some (MemoryCache mc)" using Cons.prems by (simp add: fire_fields)
    have c3: "cache_state ?c3 = cache_state c" "config ?c3 = config c"
      by (simp_all add: fire_fields)
    have step: "batch_lookup (k # keys) ectx hits misses c
                  = batch_lookup keys ectx (hits(k \<mapsto> ?v)) misses ?c3"
      using True by (simp add: g Let_def)
    show ?thesis
      unfolding step Cons.IH[OF m3] c3
      using True by (simp add: fire_def)
  next
    case False
    let ?c3 = "fire (on_cache_miss (events (config c))) (Cache_miss k)
                 (c\<lparr>metrics := (metrics c)\<lparr>cache_misses := cache_misses (metrics c) + 1\<rparr>\<rparr>)"
    have m3: "cache ?c3 = Some (MemoryCache mc)" using Cons.prems by (simp add: fire_fields)
    have c3: "cache_state ?c3 = cache_state c" "config ?c3 = config c"
      by (simp_all add: fire_fields)
    have step: "batch_lookup (k # keys) ectx hits misses c
                  = batch_lookup keys ectx hits (misses @ [k]) ?c3"
      using False by (simp add: g Let_def)
    show ?thesis
      unfolding step Cons.IH[OF m3] c3
      using False by (simp add: fire_def)
  qed
qed

lemma batch_lookup_alike:
  assumes mem: "cache c = Some (MemoryCache mc)"
    and alike: "\<And>k. TTLCache_get t k = TTLCache_get (cache_state c) k"
  shows "batch_lookup keys ectx hits misses (c\<lparr>cache_state := t\<rparr>) =
           (fst (batch_lookup keys ectx hits misses c),
            fst (snd (batch_lookup keys ectx hits misses c)),
            (snd (snd (batch_lookup keys ectx hits misses c)))\<lparr>cache_state := t\<rparr>)"
proof -
  have mem': "cache (c\<lparr>cache_state := t\<rparr>) = Some (MemoryCache mc)" using mem by simp
  have sel: "cache_state (c\<lparr>cache_state := t\<rparr>) = t" "config (c\<lparr>cache_state := t\<rparr>) = config c"
    "metrics (c\<lparr>cache_state := t\<rparr>) = metrics c" "event_log (c\<lparr>cache_state := t\<rparr>) = event_log c"
    by simp_all
  show ?thesis
    unfolding batch_lookup_memory[OF mem'] batch_lookup_memory[OF mem] sel alike
    by simp
qed

lemma batch_lookup_memory_frame:
  assumes mem: "cache c = Some (MemoryCache mc)"
  shows "cache (snd (snd (batch_lookup keys ectx hits misses c))) = cache c
       \<and> cache_state (snd (snd (batch_lookup keys ectx hits misses c))) = cache_state c"
  unfolding batch_lookup_memory[OF mem] by simp

lemma evaluate_batch_remote_cache_state:
  "evaluate_batch_remote w keys ectx (c\<lparr>cache_state := t\<rparr>) =
     (fst (evaluate_batch_remote w keys ectx c),
      (snd (evaluate_batch_remote w keys ectx c))\<lparr>cache_state := t\<rparr>)"
  by (auto simp: evaluate_batch_remote_def session_post_def Let_def
           split: http_outcome.splits option.splits FlagValue.splits)

lemma evaluate_batch_remote_frame:
  "config (snd (evaluate_batch_remote w keys ectx c)) = config c
   \<and> offline_mode (snd (evaluate_batch_remote w keys ectx c)) = offline_mode c
   \<and> cache (snd (evaluate_batch_remote w keys ectx c)) = cache c
   \<and> cache_state (snd (evaluate_batch_remote w keys ectx c)) = cache_state c"
  by (auto simp: evaluate_batch_remote_def session_post_def Let_def
           split: http_outcome.splits option.splits FlagValue.splits)

lemma cache_remote_results_alike:
  assumes mem: "cache c = Some (MemoryCache mc)"
  shows "\<exists>t'. cache_remote_results rs ectx (c\<lparr>cache_state := t\<rparr>)
               = (cache_remote_results rs ectx c)\<lparr>cache_state := t'\<rparr>"
  using mem
proof (induction rs arbitrary: c t)
  case Nil
  show ?case by (intro exI[of _ t]) simp
next
  case (Cons r rs)
  obtain k v where r: "r = (k, v)" by (cases r)
  let ?pk = "key_prefix mc @ build_cache_key (config c) k ectx"
  let ?c2 = "fire (on_evaluation (events (config c))) (Evaluation k v)
               (c\<lparr>cache_state := (cache_state c)(?pk \<mapsto> v)\<rparr>)"
  let ?d2 = "fire (on_evaluation (events (config c))) (Evaluation k v)
               (c\<lparr>cache_state := t(?pk \<mapsto> v)\<rparr>)"
  have m2: "cache ?c2 = Some (MemoryCache mc)" using Cons.prems by (simp add: fire_fields)
  have d2: "?d2 = ?c2\<lparr>cache_state := t(?pk \<mapsto> v)\<rparr>" by (simp add: fire_def)
  have sc: "cache_remote_results (r # rs) ectx c = cache_remote_results rs ectx ?c2"
    using Cons.prems by (simp add: r Let_def memory_set_cache[where mc = mc])
  have sd: "cache_remote_results (r # rs) ectx (c\<lparr>cache_state := t\<rparr>)
              = cache_remote_results rs ectx ?d2"
    using Cons.prems by (simp add: r Let_def memory_set_cache[where mc = mc])
  from Cons.IH[OF m2, of "t(?pk \<mapsto> v)"] show ?case
    unfolding sc sd d2 .
qed

lemma evaluate_batch_alike:
  assumes mem: "cache c = Some (MemoryCache mc)"
    and alike: "\<And>k. TTLCache_get t k = TTLCache_get (cache_state c) k"
  shows "\<exists>t'. evaluate_batch w keys ctx (c\<lparr>cache_state := t\<rparr>) =
           (fst (evaluate_batch w keys ctx c),
            (snd (evaluate_batch w keys ctx c))\<lparr>cache_state := t'\<rparr>)"
proof -
  let ?ectx = "effective_context ctx c"
  have ectx: "effective_context ctx (c\<lparr>cache_state := t\<rparr>) = ?ectx"
    by (simp add: effective_context_def split: option.splits)
  obtain hits misses c1 where lk: "batch_lookup keys ?ectx Map.empty [] c = (hits, misses, c1)"
    by (metis prod_cases3)
  have lk': "batch_lookup keys ?ectx Map.empty [] (c\<lparr>cache_state := t\<rparr>)
               = (hits, misses, c1\<lparr>cache_state := t\<rparr>)"
    using batch_lookup_alike[OF mem alike, of keys ?ectx Map.empty "[]"] lk by simp
  have fr1: "config c1 = config c" "offline_mode c1 = offline_mode c"
    "cache c1 = Some (MemoryCache mc)"
    using batch_lookup_frame[OF lk] batch_lookup_memory_frame[OF mem, of keys ?ectx Map.empty "[]"]
      lk mem by simp_all
  obtain r c2 where rem: "evaluate_batch_remote w misses ?ectx c1 = (r, c2)"
    by (metis prod.collapse)
  have rem': "evaluate_batch_remote w misses ?ectx (c1\<lparr>cache_state := t\<rparr>)
                = (r, c2\<lparr>cache_state := t\<rparr>)"
    by (simp only: evaluate_batch_remote_cache_state rem fst_conv snd_conv)
  have fr2: "config c2 = config c" "offline_mode c2 = offline_mode c"
    "cache c2 = Some (MemoryCache mc)"
    using evaluate_batch_remote_frame[of w misses ?ectx c1] rem fr1 by simp_all
  note defs = evaluate_batch_def ectx lk lk' rem rem' Let_def fr1 fr2 batch_except_def fire_def
  show ?thesis
  proof (cases "misses \<noteq> [] \<and> \<not> offline_mode c \<and> mode (connection (config c)) \<noteq> ''offline''")
    case False
    then show ?thesis
      by (intro exI[of _ t]) (auto simp: defs)
  next
    case True
    show ?thesis
    proof (cases "\<exists>fl. r = Inr (VDict fl)")
      case ex: True
      then obtain fl where r: "r = Inr (VDict fl)" by blast
      from cache_remote_results_alike[OF fr2(3), of fl ?ectx t] obtain t' where
        t': "cache_remote_results fl ?ectx (c2\<lparr>cache_state := t\<rparr>)
               = (cache_remote_results fl ?ectx c2)\<lparr>cache_state := t'\<rparr>" ..
      have fr3: "config (cache_remote_results fl ?ectx c2) = config c"
        "offline_mode (cache_remote_results fl ?ectx c2) = offline_mode c"
        using cache_remote_results_frame[of fl ?ectx c2] fr2 by simp_all
      show ?thesis
        using True
        by (intro exI[of _ t']) (simp add: defs r t' fr3)
    next
      case False
      with True show ?thesis
        by (intro exI[of _ t]) (cases r; auto simp: defs split: FlagValue.splits)
    qed
  qed
qed

lemma remote_attempt_ok:
  assumes "\<not> failed_attempt (network w (length (request_log c)))"
  shows "\<exists>result. fst (remote_attempt w p dv c) = Inr result"
  using assms
  by (auto simp: failed_attempt_def remote_attempt_def session_post_def time_time_def Let_def
           split: http_outcome.splits option.splits FlagValue.splits if_splits)

lemma evaluate_remote_first_attempt_ok:
  assumes ok: "\<not> failed_attempt (network w (length (request_log c)))"
    and n: "0 < retry_attempts (connection (config c))"
  shows "\<exists>result. fst (evaluate_remote w fk ectx dv c) = Inr result"
proof -
  let ?c1 = "c\<lparr>metrics := (metrics c)\<lparr>network_requests := network_requests (metrics c) + 1\<rparr>\<rparr>"
  let ?p = "VDict [(''flagKey'', VStr fk), (''context'', context_to_dict ectx),
                   (''environment'', VStr (environment (config c)))]"
  from n have upt: "[0 ..< nat (retry_attempts (connection (config c)))]
                      = 0 # [1 ..< nat (retry_attempts (connection (config c)))]"
    by (simp add: upt_conv_Cons)
  from remote_attempt_ok[of w ?c1 ?p dv] ok obtain result where
    "fst (remote_attempt w ?p dv ?c1) = Inr result" by auto
  then obtain c2 where "remote_attempt w ?p dv ?c1 = (Inr result, c2)"
    by (metis prod.collapse)
  then show ?thesis
    by (simp add: evaluate_remote_def Let_def upt)
qed

lemma evaluate_with_details_write_back:
  assumes mem: "cache c = Some (MemoryCache mc)"
    and miss: "TTLCache_get (cache_state c)
                 (key_prefix mc @ build_cache_key (config c) flag_key (effective_context ctx c))
               = VNone"
    and online: "\<not> offline_mode c" "mode (connection (config c)) \<noteq> ''offline''"
    and n: "0 < retry_attempts (connection (config c))"
    and ok: "\<not> failed_attempt (network w (length (request_log c)))"
  shows "\<exists>result c'. evaluate_with_details w flag_key ctx dv c = (Inr result, c')
           \<and> cache_state c'
                (key_prefix mc @ build_cache_key (config c) flag_key (effective_context ctx c))
               = Some (result_value result)
           \<and> cache c' = cache c \<and> config c' = config c
           \<and> client_context c' = client_context c"
proof -
  let ?ectx = "effective_context ctx c"
  let ?key = "build_cache_key (config c) flag_key ?ectx"
  let ?c0 = "c\<lparr>clock_reads := Suc (clock_reads c)\<rparr>"
  let ?c2 = "fire (on_cache_miss (events (config ?c0))) (Cache_miss flag_key) ?c0"
  let ?c3 = "?c2\<lparr>metrics := (metrics ?c2)\<lparr>cache_misses := cache_misses (metrics ?c2) + 1\<rparr>\<rparr>"
  have ok3: "\<not> failed_attempt (network w (length (request_log ?c3)))"
    using ok by (simp add: fire_fields)
  have n3: "0 < retry_attempts (connection (config ?c3))"
    using n by (simp add: fire_fields)
  from evaluate_remote_first_attempt_ok[OF ok3 n3, of flag_key ?ectx dv]
  obtain result c4 where r: "evaluate_remote w flag_key ?ectx dv ?c3 = (Inr result, c4)"
    by (metis prod.collapse)
  from evaluate_remote_frame[of w flag_key ?ectx dv ?c3] r
  have fr: "config c4 = config c" "cache c4 = Some (MemoryCache mc)"
    "cache_state c4 = cache_state c" "client_context c4 = client_context c"
    by (simp_all add: fire_fields mem)
  have sc: "set_cache ?key (result_value result) c4
              = c4\<lparr>cache_state := (cache_state c)(key_prefix mc @ ?key \<mapsto> result_value result)\<rparr>"
    using fr by (simp add: memory_set_cache[where mc = mc])
  show ?thesis
    using online miss r fr mem
    by (simp add: evaluate_with_details_def evaluate_try_def time_time_def Let_def
          memory_get_from_cache[where mc = mc] fire_def sc)
qed

lemma foldl_hits_unchanged:
  "\<not> P x \<Longrightarrow> foldl (\<lambda>h k. if P k then h(k \<mapsto> f k) else h) hits keys x = hits x"
  by (induction keys arbitrary: hits) auto

lemma cache_remote_results_events:
  "\<exists>rest. event_log (cache_remote_results rs ectx c) = event_log c @ rest"
proof (induction rs arbitrary: c)
  case Nil
  show ?case by simp
next
  case (Cons r rs)
  obtain k v where r: "r = (k, v)" by (cases r)
  from set_cache_state[of "build_cache_key (config c) k ectx" v c]
  obtain s' where s: "set_cache (build_cache_key (config c) k ectx) v c = c\<lparr>cache_state := s'\<rparr>" ..
  let ?c2 = "fire (on_evaluation (events (config c))) (Evaluation k v) (c\<lparr>cache_state := s'\<rparr>)"
  from Cons.IH[of ?c2] obtain rest where
    "event_log (cache_remote_results rs ectx ?c2) = event_log ?c2 @ rest" ..
  then show ?case
    by (auto simp: r s Let_def fire_def split: if_splits)
qed

lemma evaluate_batch_after_lookup:
  assumes lk: "batch_lookup keys (effective_context ctx c) Map.empty [] c = (hits, misses, c1)"
  shows "cache_misses (metrics (snd (evaluate_batch w keys ctx c))) = cache_misses (metrics c1)
       \<and> cache_hits (metrics (snd (evaluate_batch w keys ctx c))) = cache_hits (metrics c1)
       \<and> (\<exists>rest. event_log (snd (evaluate_batch w keys ctx c)) = event_log c1 @ rest)"
proof -
  let ?ectx = "effective_context ctx c"
  from evaluate_batch_remote_request[of w misses ?ectx c1]
  obtain r c2 where rem: "evaluate_batch_remote w misses ?ectx c1 = (r, c2)"
    and c2: "c2 = c1\<lparr>metrics := (metrics c1)\<lparr>network_requests := network_requests (metrics c1) + 1\<rparr>,
          request_log := request_log c1 @
            [(''/api/v1/evaluate/batch'',
              VDict [(''flags'', VList (map VStr misses)), (''context'', context_to_dict ?ectx),
                     (''environment'', VStr (environment (config c1)))])]\<rparr>"
    by blast
  have fr2: "cache_misses (metrics c2) = cache_misses (metrics c1)"
    "cache_hits (metrics c2) = cache_hits (metrics c1)" "event_log c2 = event_log c1"
    by (simp_all add: c2)
  show ?thesis
  proof (cases "misses \<noteq> [] \<and> \<not> offline_mode c1 \<and> mode (connection (config c1)) \<noteq> ''offline''")
    case False
    then show ?thesis
      by (auto simp: evaluate_batch_def lk Let_def)
  next
    case True
    show ?thesis
    proof (cases "\<exists>fl. r = Inr (VDict fl)")
      case ex: True
      then obtain fl where r: "r = Inr (VDict fl)" by blast
      from cache_remote_results_events[of fl ?ectx c2] obtain rest where
        ev: "event_log (cache_remote_results fl ?ectx c2) = event_log c2 @ rest" ..
      show ?thesis
        using True fr2
        by (simp add: evaluate_batch_def lk rem r Let_def cache_remote_results_frame ev)
    next
      case False
      with True fr2 show ?thesis
        by (cases r; auto simp: evaluate_batch_def lk rem Let_def batch_except_def fire_def
                split: FlagValue.splits)
    qed
  qed
qed

text \<open>
  C10. A client with the in-memory cache whose entry for the cache key of a flag holds
  \<open>None\<close>. A single evaluation of the flag takes the miss branch: the result is not
  \<open>CACHED\<close>, \<open>cache_misses\<close> grows by 1 and \<open>cache_hits\<close> does not, the cache-miss
  event is the first event fired and no cache-hit event follows, and the client goes on
  to the remote call or, offline, to the offline result. A batch evaluation puts the flag
  among its misses, counts it and fires its cache-miss event. Neither can tell the entry
  from an absent one: with the entry removed, the result, the metrics, the events and
  the requests are the same. The stored \<open>None\<close> may come from the pipeline itself: an
  evaluation that misses, is online and whose first attempt succeeds writes the value it
  returns into the cache, also when that value is \<open>None\<close>.
\<close>

theorem cached_none_is_a_cache_miss:
  assumes mem: "cache c = Some (MemoryCache mc)"
  shows
    "(cache_state c
        (key_prefix mc @ build_cache_key (config c) flag_key (effective_context ctx c))
      = Some VNone \<longrightarrow>
        (\<exists>result c'. evaluate_with_details w flag_key ctx dv c = (Inr result, c')
           \<and> reason result \<noteq> CACHED
           \<and> cache_misses (metrics c') = cache_misses (metrics c) + 1
           \<and> cache_hits (metrics c') = cache_hits (metrics c)
           \<and> (on_cache_miss (events (config c)) \<longrightarrow>
                take (Suc (length (event_log c))) (event_log c')
                  = event_log c @ [Cache_miss flag_key])
           \<and> Cache_hit flag_key \<notin> set (drop (length (event_log c)) (event_log c'))
           \<and> (if offline_mode c \<or> mode (connection (config c)) = ''offline''
               then reason result = OFFLINE
                    \<and> network_requests (metrics c') = network_requests (metrics c)
               else network_requests (metrics c') = network_requests (metrics c) + 1))
      \<and> (flag_key \<in> set keys \<longrightarrow>
            flag_key \<in> set (fst (snd (batch_lookup keys (effective_context ctx c) Map.empty [] c)))
          \<and> fst (batch_lookup keys (effective_context ctx c) Map.empty [] c) flag_key = None
          \<and> cache_misses (metrics c) + 1
               \<le> cache_misses (metrics (snd (evaluate_batch w keys ctx c)))
          \<and> (on_cache_miss (events (config c)) \<longrightarrow>
                Cache_miss flag_key \<in> set (event_log (snd (evaluate_batch w keys ctx c)))))
      \<and> fst (evaluate_with_details w flag_key ctx dv
                (c\<lparr>cache_state := (cache_state c)
                     (key_prefix mc @ build_cache_key (config c) flag_key
                        (effective_context ctx c) := None)\<rparr>))
           = fst (evaluate_with_details w flag_key ctx dv c)
      \<and> metrics (snd (evaluate_with_details w flag_key ctx dv
                (c\<lparr>cache_state := (cache_state c)
                     (key_prefix mc @ build_cache_key (config c) flag_key
                        (effective_context ctx c) := None)\<rparr>)))
           = metrics (snd (evaluate_with_details w flag_key ctx dv c))
      \<and> event_log (snd (evaluate_with_details w flag_key ctx dv
                (c\<lparr>cache_state := (cache_state c)
                     (key_prefix mc @ build_cache_key (config c) flag_key
                        (effective_context ctx c) := None)\<rparr>)))
           = event_log (snd (evaluate_with_details w flag_key ctx dv c))
      \<and> request_log (snd (evaluate_with_details w flag_key ctx dv
                (c\<lparr>cache_state := (cache_state c)
                     (key_prefix mc @ build_cache_key (config c) flag_key
                        (effective_context ctx c) := None)\<rparr>)))
           = request_log (snd (evaluate_with_details w flag_key ctx dv c))
      \<and> fst (evaluate_batch w keys ctx
                (c\<lparr>cache_state := (cache_state c)
                     (key_prefix mc @ build_cache_key (config c) flag_key
                        (effective_context ctx c) := None)\<rparr>))
           = fst (evaluate_batch w keys ctx c)
      \<and> metrics (snd (evaluate_batch w keys ctx
                (c\<lparr>cache_state := (cache_state c)
                     (key_prefix mc @ build_cache_key (config c) flag_key
                        (effective_context ctx c) := None)\<rparr>)))
           = metrics (snd (evaluate_batch w keys ctx c))
      \<and> event_log (snd (evaluate_batch w keys ctx
                (c\<lparr>cache_state := (cache_state c)
                     (key_prefix mc @ build_cache_key (config c) flag_key
                        (effective_context ctx c) := None)\<rparr>)))
           = event_log (snd (evaluate_batch w keys ctx c))
      \<and> request_log (snd (evaluate_batch w keys ctx
                (c\<lparr>cache_state := (cache_state c)
                     (key_prefix mc @ build_cache_key (config c) flag_key
                        (effective_context ctx c) := None)\<rparr>)))
           = request_log (snd (evaluate_batch w keys ctx c)))
   \<and> (TTLCache_get (cache_state c)
         (key_prefix mc @ build_cache_key (config c) flag_key (effective_context ctx c)) = VNone
       \<and> \<not> offline_mode c \<and> mode (connection (config c)) \<noteq> ''offline''
       \<and> 0 < retry_attempts (connection (config c))
       \<and> \<not> failed_attempt (network w (length (request_log c)))
      \<longrightarrow> (\<exists>result c'. evaluate_with_details w flag_key ctx dv c = (Inr result, c')
             \<and> cache_state c'
                  (key_prefix mc @ build_cache_key (config c) flag_key (effective_context ctx c))
                 = Some (result_value result)
             \<and> cache c' = cache c \<and> config c' = config c
             \<and> client_context c' = client_context c))"
    (is "(?none \<longrightarrow> ?single \<and> ?batch \<and> ?s1 \<and> ?s2 \<and> ?s3 \<and> ?s4 \<and> ?b1 \<and> ?b2 \<and> ?b3 \<and> ?b4) \<and> ?wb")
proof (rule conjI)
  let ?ectx = "effective_context ctx c"
  let ?pk = "key_prefix mc @ build_cache_key (config c) flag_key ?ectx"
  let ?t = "(cache_state c)(?pk := None)"
  show "?none \<longrightarrow> ?single \<and> ?batch \<and> ?s1 \<and> ?s2 \<and> ?s3 \<and> ?s4 \<and> ?b1 \<and> ?b2 \<and> ?b3 \<and> ?b4"
  proof (rule impI, intro conjI)
    assume none: ?none
    have v: "TTLCache_get (cache_state c) ?pk = VNone"
      using none by (simp add: TTLCache_get_def)
    have miss: "fst (get_from_cache (build_cache_key (config c) flag_key ?ectx) c) = VNone"
      using v by (simp add: memory_get_from_cache[OF mem])
    show ?single
      by (rule evaluate_with_details_miss[OF miss])
    have alike: "TTLCache_get ?t k = TTLCache_get (cache_state c) k" for k
      using none by (simp add: TTLCache_get_def)
    then have alike': "\<forall>k. TTLCache_get (cache_state c) k = TTLCache_get ?t k" by simp
    from evaluate_with_details_alike[OF mem alike', of w flag_key ctx dv] obtain t' where
      "evaluate_with_details w flag_key ctx dv (c\<lparr>cache_state := ?t\<rparr>) =
           (fst (evaluate_with_details w flag_key ctx dv c),
            (snd (evaluate_with_details w flag_key ctx dv c))\<lparr>cache_state := t'\<rparr>)" ..
    then show ?s1 ?s2 ?s3 ?s4 by simp_all
    from evaluate_batch_alike[OF mem alike, of w keys ctx] obtain t'' where
      "evaluate_batch w keys ctx (c\<lparr>cache_state := ?t\<rparr>) =
           (fst (evaluate_batch w keys ctx c),
            (snd (evaluate_batch w keys ctx c))\<lparr>cache_state := t''\<rparr>)" ..
    then show ?b1 ?b2 ?b3 ?b4 by simp_all
    show ?batch
    proof (intro impI)
      assume k: "flag_key \<in> set keys"
      obtain hits misses c1 where
        lk: "batch_lookup keys ?ectx Map.empty [] c = (hits, misses, c1)"
        by (metis prod_cases3)
      note closed = lk[unfolded batch_lookup_memory[OF mem], simplified]
      from closed have m: "flag_key \<in> set misses" using k v by auto
      from closed have h: "hits flag_key = None"
        using foldl_hits_unchanged[of "\<lambda>k. TTLCache_get (cache_state c)
                 (key_prefix mc @ build_cache_key (config c) k ?ectx) \<noteq> VNone" flag_key
               "\<lambda>k. TTLCache_get (cache_state c)
                 (key_prefix mc @ build_cache_key (config c) k ?ectx)" Map.empty keys] v
        by auto
      from closed have cm: "cache_misses (metrics c) + 1 \<le> cache_misses (metrics c1)"
      proof -
        have "filter (\<lambda>k. TTLCache_get (cache_state c)
                 (key_prefix mc @ build_cache_key (config c) k ?ectx) = VNone) keys \<noteq> []"
          using k v by (auto simp: filter_empty_conv)
        then have "1 \<le> length (filter (\<lambda>k. TTLCache_get (cache_state c)
                 (key_prefix mc @ build_cache_key (config c) k ?ectx) = VNone) keys)"
          by (simp add: Suc_leI)
        with closed show ?thesis by auto
      qed
      from closed have ev: "on_cache_miss (events (config c))
                              \<longrightarrow> Cache_miss flag_key \<in> set (event_log c1)"
        using k v by auto
      from evaluate_batch_after_lookup[OF lk, of w] obtain rest where
        "cache_misses (metrics (snd (evaluate_batch w keys ctx c))) = cache_misses (metrics c1)"
        "event_log (snd (evaluate_batch w keys ctx c)) = event_log c1 @ rest"
        by blast
      with m h cm ev lk show
        "flag_key \<in> set (fst (snd (batch_lookup keys ?ectx Map.empty [] c)))
          \<and> fst (batch_lookup keys ?ectx Map.empty [] c) flag_key = None
          \<and> cache_misses (metrics c) + 1
               \<le> cache_misses (metrics (snd (evaluate_batch w keys ctx c)))
          \<and> (on_cache_miss (events (config c)) \<longrightarrow>
                Cache_miss flag_key \<in> set (event_log (snd (evaluate_batch w keys ctx c))))"
        by simp
    qed
  qed
next
  let ?ectx = "effective_context ctx c"
  let ?pk = "key_prefix mc @ build_cache_key (config c) flag_key ?ectx"
  show ?wb
  proof (rule impI)
  assume "TTLCache_get (cache_state c) ?pk = VNone
       \<and> \<not> offline_mode c \<and> mode (connection (config c)) \<noteq> ''offline''
       \<and> 0 < retry_attempts (connection (config c))
       \<and> \<not> failed_attempt (network w (length (request_log c)))"
  then have "TTLCache_get (cache_state c) ?pk = VNone"
       "\<not> offline_mode c" "mode (connection (config c)) \<noteq> ''offline''"
       "0 < retry_attempts (connection (config c))"
       "\<not> failed_attempt (network w (length (request_log c)))" by simp_all
  from evaluate_with_details_write_back[OF mem this, of dv]
  show "\<exists>result c'. evaluate_with_details w flag_key ctx dv c = (Inr result, c')
             \<and> cache_state c' ?pk = Some (result_value result)
             \<and> cache c' = cache c \<and> config c' = config c
             \<and> client_context c' = client_context c" .
  qed
qed

text \<open>
  The instance of C10 in which the pipeline wrote the \<open>None\<close> itself: the service
  answers \<open>null\<close>, the first evaluation stores it, and the next single and batch
  evaluations of the flag miss.
\<close>

theorem cached_none_is_a_cache_miss_witness:
  "cache (FlexFlagClient observed_config) = Some (MemoryCache \<lparr>key_prefix = ''flexflag:''\<rparr>)
   \<and> TTLCache_get (cache_state (FlexFlagClient observed_config))
         (''flexflag:'' @ build_cache_key observed_config ''dark-mode'' None) = VNone
   \<and> \<not> offline_mode (FlexFlagClient observed_config)
   \<and> mode (connection observed_config) \<noteq> ''offline''
   \<and> 0 < retry_attempts (connection observed_config)
   \<and> \<not> failed_attempt (network null_flag_service 0)
   \<and> cache stale_client = Some (MemoryCache \<lparr>key_prefix = ''flexflag:''\<rparr>)
   \<and> cache_state stale_client (''flexflag:'' @ build_cache_key observed_config ''dark-mode'' None)
        = Some VNone
   \<and> on_cache_miss (events (config stale_client))
   \<and> ''dark-mode'' \<in> set [''dark-mode'']
   \<and> (\<exists>result c'. evaluate_with_details null_flag_service ''dark-mode'' None VNone stale_client
                      = (Inr result, c')
          \<and> reason result \<noteq> CACHED
          \<and> cache_misses (metrics c') = cache_misses (metrics stale_client) + 1
          \<and> cache_hits (metrics c') = cache_hits (metrics stale_client)
          \<and> take (Suc (length (event_log stale_client))) (event_log c')
               = event_log stale_client @ [Cache_miss ''dark-mode''])
   \<and> ''dark-mode'' \<in> set (fst (snd (batch_lookup [''dark-mode''] None Map.empty [] stale_client)))
   \<and> Cache_miss ''dark-mode''
        \<in> set (event_log (snd (evaluate_batch null_flag_service [''dark-mode''] None stale_client)))"
proof -
  let ?mc = "\<lparr>key_prefix = ''flexflag:''\<rparr>"
  let ?c0 = "FlexFlagClient observed_config"
  have c0: "cache ?c0 = Some (MemoryCache ?mc)"
    "config ?c0 = observed_config" "client_context ?c0 = None" "request_log ?c0 = []"
    "cache_state ?c0 = Map.empty" "\<not> offline_mode ?c0"
    by (simp_all add: FlexFlagClient_def)
  have cfg: "mode (connection observed_config) \<noteq> ''offline''"
    "0 < retry_attempts (connection observed_config)"
    "on_cache_miss (events observed_config)"
    by (simp_all add: observed_config_def default_config_def)
  have net: "\<not> failed_attempt (network null_flag_service 0)"
    by (simp add: null_flag_service_def failed_attempt_def)
  have ectx0: "effective_context None ?c0 = None"
    by (simp add: effective_context_def c0)
  have wbh: "TTLCache_get (cache_state ?c0)
         (key_prefix ?mc @ build_cache_key (config ?c0) ''dark-mode'' (effective_context None ?c0))
       = VNone
       \<and> \<not> offline_mode ?c0 \<and> mode (connection (config ?c0)) \<noteq> ''offline''
       \<and> 0 < retry_attempts (connection (config ?c0))
       \<and> \<not> failed_attempt (network null_flag_service (length (request_log ?c0)))"
    using cfg net by (simp add: c0 TTLCache_get_def)
  from cached_none_is_a_cache_miss[OF c0(1), where flag_key = "''dark-mode''" and ctx = None
      and w = null_flag_service and dv = VNone and keys = "[]"] wbh
  obtain result c' where
    e0: "evaluate_with_details null_flag_service ''dark-mode'' None VNone ?c0 = (Inr result, c')"
    and st: "cache_state c'
               (key_prefix ?mc @ build_cache_key (config ?c0) ''dark-mode''
                  (effective_context None ?c0)) = Some (result_value result)"
    and fr: "cache c' = cache ?c0" "config c' = config ?c0" "client_context c' = client_context ?c0"
    by blast
  have "map_sum id result_value
          (fst (evaluate_with_details null_flag_service ''dark-mode'' None VNone ?c0)) = Inr VNone"
    by (simp add: pipeline_defs scenario_defs Let_def upt_conv_Cons dict_get_def)
  with e0 have rv: "result_value result = VNone" by simp
  have sc: "stale_client = c'" using e0 by (simp add: stale_client_def)
  have mem: "cache stale_client = Some (MemoryCache ?mc)"
    using fr c0 by (simp add: sc)
  have scfg: "config stale_client = observed_config" "client_context stale_client = None"
    using fr c0 by (simp_all add: sc)
  have ectx: "effective_context None stale_client = None"
    by (simp add: effective_context_def scfg)
  have none: "cache_state stale_client
                (key_prefix ?mc @ build_cache_key (config stale_client) ''dark-mode''
                   (effective_context None stale_client)) = Some VNone"
    using st rv ectx by (simp add: sc fr c0 ectx0)
  from cached_none_is_a_cache_miss[OF mem, where flag_key = "''dark-mode''" and ctx = None
      and w = null_flag_service and dv = VNone and keys = "[''dark-mode'']"] none
  have concl: "(\<exists>result c'. evaluate_with_details null_flag_service ''dark-mode'' None VNone stale_client
                      = (Inr result, c')
          \<and> reason result \<noteq> CACHED
          \<and> cache_misses (metrics c') = cache_misses (metrics stale_client) + 1
          \<and> cache_hits (metrics c') = cache_hits (metrics stale_client)
          \<and> take (Suc (length (event_log stale_client))) (event_log c')
               = event_log stale_client @ [Cache_miss ''dark-mode''])
     \<and> ''dark-mode'' \<in> set (fst (snd (batch_lookup [''dark-mode'']
              (effective_context None stale_client) Map.empty [] stale_client)))
     \<and> Cache_miss ''dark-mode''
        \<in> set (event_log (snd (evaluate_batch null_flag_service [''dark-mode''] None stale_client)))"
    using cfg(3) by (simp add: scfg) blast
  show ?thesis
    using concl mem none wbh cfg net
    by (simp add: c0 scfg ectx ectx0)
qed

subsection \<open>Metrics\<close>

text \<open>
  C2. The claim: every single evaluation increments \<open>evaluations\<close>, whatever branch it
  takes. The code at two inputs: a client in offline mode, and an online client whose
  service is unreachable, each evaluating a flag that is not cached. Both evaluations
  answer from the offline path, both count a cache miss, and \<open>evaluations\<close> stays 0: the
  two offline branches of \<open>evaluate_with_details\<close> return without incrementing it.
\<close>

theorem offline_evaluations_are_not_counted:
  "evaluations (metrics (snd (evaluate_with_details unreachable ''dark-mode'' None VNone
      ((FlexFlagClient default_config)\<lparr>offline_mode := True\<rparr>)))) = 0
   \<and> cache_misses (metrics (snd (evaluate_with_details unreachable ''dark-mode'' None VNone
      ((FlexFlagClient default_config)\<lparr>offline_mode := True\<rparr>)))) = 1
   \<and> evaluations (metrics (snd (evaluate_with_details unreachable ''dark-mode'' None VNone
      (FlexFlagClient default_config)))) = 0
   \<and> cache_misses (metrics (snd (evaluate_with_details unreachable ''dark-mode'' None VNone
      (FlexFlagClient default_config)))) = 1"
  by (simp add: pipeline_defs scenario_defs Let_def upt_conv_Cons)

text \<open>
  C6. The claim: the average latency is the running mean with \<open>n\<close> the evaluation count
  before the increment, hence the arithmetic mean of the samples. The code at one input:
  a fresh client whose first evaluation is a cache hit that takes 10 ms. The hit branch
  increments \<open>evaluations\<close> first and updates the average afterwards, so the update sees
  the count 1, not 0, and the average of the single sample 10 becomes 5.
\<close>

theorem average_latency_after_first_hit:
  "map_sum id (map_option evaluation_time_ms \<circ> metadata)
     (fst (evaluate_with_details unreachable ''dark-mode'' None VNone warm_client))
     = Inr (Some 10)
   \<and> evaluations (metrics (snd (evaluate_with_details unreachable ''dark-mode'' None VNone
        warm_client))) = 1
   \<and> average_latency_ms (metrics (snd (evaluate_with_details unreachable ''dark-mode'' None
        VNone warm_client))) = 5"
  by (simp add: pipeline_defs scenario_defs Let_def)

subsection \<open>Cache providers\<close>

text \<open>
  C7. The claim: a failure of a backfill write does not fail \<open>TieredCache.get\<close>. The code
  at one input: tier 0 is empty and its \<open>set\<close> raises, tier 1 holds \<open>v\<close> under \<open>k\<close>.
  The value is found in tier 1, the backfill of tier 0 raises, and \<open>get\<close> ends with that
  exception instead of returning \<open>v\<close>.
\<close>

theorem tiered_get_fails_when_backfill_fails:
  "fst (TieredCache_get
          [(failing_set, Map.empty),
           (MemoryCache \<lparr>key_prefix = ''flexflag:''\<rparr>, [''flexflag:k'' \<mapsto> VStr ''v''])] ''k'')
     = Inl Cache_error"
  by (simp add: TieredCache_get_def failing_set_def MemoryCache_def MemoryCache_get_def
        TTLCache_get_def)

text \<open>
  C8. The claim: \<open>DiskCache.get\<close> of an expired row deletes the row and returns absent.
  The code at one input: a row that expired at time 100, read at time 200. \<open>get\<close> holds
  the lock when it calls \<open>delete\<close>, \<open>delete\<close> waits for the same lock, and the call never
  completes; the row is still in the table.
\<close>

theorem disk_get_of_expired_row_never_completes:
  "fst (DiskCache_get 200 ''k'' expired_disk) = Never_completes
   \<and> rows (snd (DiskCache_get 200 ''k'' expired_disk)) ''flexflag:k'' = Some (VStr ''v'', 100)"
  by (simp add: DiskCache_get_def DiskCache_delete_def expired_disk_def)

subsection \<open>The JSON encoder can be read back\<close>

declare show_nat.simps [simp del]










lemma escape_char_plain: "plain c \<Longrightarrow> escape_char c = [c]"
  by (auto simp: plain_def escape_char_def)


















subsection \<open>Cache keys\<close>












end
